theory Spec2Isabelle
  imports Complex_Main
begin

section \<open>Train steps of the semi-supervised regression algorithms\<close>

text \<open>
  A shallow embedding of \<^verbatim>\<open>MeanTeacher.train_step\<close>
  (semilearn/algorithms/meanteacher/meanteacher.py), \<^verbatim>\<open>CLSS.train_step\<close>
  (semilearn/algorithms/clss/clss.py) and \<^verbatim>\<open>RankUp.train_step\<close>
  (semilearn/algorithms/rankup/rankup.py).

  Python floats are modelled as the real numbers: rounding, infinities and NaN are not
  part of the model. Python integers are \<^typ>\<open>int\<close>. Gradients are not modelled, so
  \<^verbatim>\<open>detach()\<close> and \<^verbatim>\<open>torch.no_grad()\<close> leave values as they are.
\<close>

subsection \<open>Errors\<close>

datatype error =
    ZeroDivisionError
  | UnpairedRestore
  | UnbalancedUnfreeze
  | Raised string

subsection \<open>The warm-up ramp\<close>

text \<open>
  \<^verbatim>\<open>np.clip(a, a_min, a_max)\<close> on a scalar is
  \<^verbatim>\<open>minimum(maximum(a, a_min), a_max)\<close>.
\<close>

definition np_clip :: "real \<Rightarrow> real \<Rightarrow> real \<Rightarrow> real" where
  "np_clip a a_min a_max = min (max a a_min) a_max"

text \<open>
  meanteacher.py line 69 and rankup.py line 155:
  \<^verbatim>\<open>np.clip(self.it / (self.reg_unsup_warm_up * self.num_train_iter), a_min=0.0, a_max=1.0)\<close>.
  \<^verbatim>\<open>self.it\<close> and \<^verbatim>\<open>self.num_train_iter\<close> are Python integers and
  \<^verbatim>\<open>self.reg_unsup_warm_up\<close> is a Python float, so the quotient is Python's true
  division, which raises \<^verbatim>\<open>ZeroDivisionError\<close> on a zero divisor before
  \<^verbatim>\<open>np.clip\<close> is reached.
\<close>

definition unsup_warmup :: "int \<Rightarrow> real \<Rightarrow> int \<Rightarrow> error + real" where
  "unsup_warmup self_it warm_up total_iter =
     (let divisor = warm_up * real_of_int total_iter
      in if divisor = 0 then Inl ZeroDivisionError
         else Inr (np_clip (real_of_int self_it / divisor) 0 1))"

subsection \<open>Results that may raise, and the state of a train step\<close>

text \<open>
  A train step mutates the model and its controllers and may raise at any call.
  It is a function from the state before to the returned value, or the exception that
  propagates, together with the state at that moment.
\<close>

type_synonym ('s, 'a) step = "'s \<Rightarrow> (error + 'a) \<times> 's"

definition ret :: "'a \<Rightarrow> ('s, 'a) step" where
  "ret a = (\<lambda>s. (Inr a, s))"

definition lift :: "error + 'a \<Rightarrow> ('s, 'a) step" where
  "lift r = (\<lambda>s. (r, s))"

definition gets :: "('s \<Rightarrow> 'a) \<Rightarrow> ('s, 'a) step" where
  "gets f = (\<lambda>s. (Inr (f s), s))"

text \<open>Sequencing of two statements: an exception of the first skips the second.\<close>

definition and_then :: "('s, 'a) step \<Rightarrow> ('a \<Rightarrow> ('s, 'b) step) \<Rightarrow> ('s, 'b) step" where
  "and_then m f = (\<lambda>s. case m s of (Inl e, s') \<Rightarrow> (Inl e, s') | (Inr a, s') \<Rightarrow> f a s')"

type_synonym param_dict = "string \<rightharpoonup> real list"

text \<open>
  The calls a step makes on the model and on its controllers, in order. A forward pass is
  recorded with the parameters and the batch-norm flags the model has when it runs.
  The list is a ghost field of the state: it records the execution and nothing reads it.
\<close>

datatype 'x call =
    Forward param_dict "bool list" 'x
  | ForwardFeat param_dict "bool list" 'x
  | ApplyShadow
  | Restore
  | FreezeBN
  | UnfreezeBN
  | HookCall string string

text \<open>
  The mutable state a train step works on: the live parameters of \<^verbatim>\<open>self.model\<close>;
  the shadow and the backup of \<^verbatim>\<open>self.ema\<close>; for each normalization layer of the
  model its update-statistics flag, and the flags captured by \<^verbatim>\<open>self.bn_controller\<close>;
  \<^verbatim>\<open>self.it\<close>; \<^verbatim>\<open>self.idx_ulb\<close>; the state of the RDA hook.
\<close>

record ('x, 'r) train_state =
  params :: param_dict
  ema_shadow :: param_dict
  ema_backup :: "param_dict option"
  bn_flags :: "bool list"
  bn_backup :: "bool list option"
  it :: int
  idx_ulb :: "nat list"
  rda :: 'r
  calls :: "'x call list"

subsection \<open>EMA controller and batch-norm controller\<close>

text \<open>
  Modelled from the spec: the class of \<^verbatim>\<open>self.ema\<close> (semilearn.core, not under src/).
  Spec 4.2: \<^verbatim>\<open>apply_shadow()\<close> swaps the live model's parameters with the shadow copy and
  must remember the original values; \<^verbatim>\<open>restore()\<close> swaps them back. A
  \<^verbatim>\<open>restore()\<close> without a matching prior \<^verbatim>\<open>apply_shadow()\<close> is undefined in the
  spec; here it raises.
\<close>

definition apply_shadow :: "(('x, 'r) train_state, unit) step" where
  "apply_shadow = (\<lambda>s.
     (Inr (), s\<lparr>params := ema_shadow s, ema_backup := Some (params s),
                calls := calls s @ [ApplyShadow]\<rparr>))"

definition restore :: "(('x, 'r) train_state, unit) step" where
  "restore = (\<lambda>s.
     case ema_backup s of
       None \<Rightarrow> (Inl UnpairedRestore, s\<lparr>calls := calls s @ [Restore]\<rparr>)
     | Some original \<Rightarrow>
         (Inr (), s\<lparr>params := original, ema_backup := None, calls := calls s @ [Restore]\<rparr>))"

text \<open>
  Modelled from the spec: the class of \<^verbatim>\<open>self.bn_controller\<close> (semilearn.core, not
  under src/). Spec 4.1: \<^verbatim>\<open>freeze(model)\<close> captures the current update-statistics flag
  of every normalization layer and sets it to "do not update"; \<^verbatim>\<open>unfreeze(model)\<close>
  restores each layer's previously captured flag. An unfreeze without a matching freeze
  is a fatal misuse in the spec; here it raises.
\<close>

definition freeze_bn :: "(('x, 'r) train_state, unit) step" where
  "freeze_bn = (\<lambda>s.
     (Inr (), s\<lparr>bn_flags := map (\<lambda>_. False) (bn_flags s), bn_backup := Some (bn_flags s),
                calls := calls s @ [FreezeBN]\<rparr>))"

definition unfreeze_bn :: "(('x, 'r) train_state, unit) step" where
  "unfreeze_bn = (\<lambda>s.
     case bn_backup s of
       None \<Rightarrow> (Inl UnbalancedUnfreeze, s\<lparr>calls := calls s @ [UnfreezeBN]\<rparr>)
     | Some captured \<Rightarrow>
         (Inr (), s\<lparr>bn_flags := captured, bn_backup := None,
                    calls := calls s @ [UnfreezeBN]\<rparr>))"

subsection \<open>The algorithm object\<close>

text \<open>
  What a model returns: \<^verbatim>\<open>outs["logits"]\<close> and \<^verbatim>\<open>outs["feat"]\<close>.
\<close>

record 't model_output =
  logits :: 't
  feat :: 't

text \<open>
  The attributes of \<^verbatim>\<open>AlgorithmBase\<close> (semilearn.core, not under src/) that the train
  steps read, taken as parameters. The network and the loss kernels are functions that
  return a value or raise. A forward pass reads the live parameters and the batch-norm
  flags; it changes neither.
  \<^item> \<open>model\<close>: \<^verbatim>\<open>self.model(x)\<close>;
  \<^item> \<open>model_only_feat\<close>: \<^verbatim>\<open>self.model(x, only_feat=True)\<close>;
  \<^item> \<open>reg_loss\<close>: \<^verbatim>\<open>self.reg_loss(logits, targets, reduction=...)\<close>;
  \<^item> \<open>reg_consistency_loss\<close>: \<^verbatim>\<open>self.reg_consistency_loss(logits, targets, name)\<close>;
  \<^item> \<open>process_log_dict\<close>: \<^verbatim>\<open>self.process_log_dict(**kwargs)\<close>, from the keyword
    arguments in the order written;
  \<^item> \<open>num_train_iter\<close>, \<open>reg_ulb_loss_ratio\<close>: configuration.
\<close>

record ('x, 't) algorithm_base =
  model :: "param_dict \<Rightarrow> bool list \<Rightarrow> 'x \<Rightarrow> error + 't model_output"
  model_only_feat :: "param_dict \<Rightarrow> bool list \<Rightarrow> 'x \<Rightarrow> error + 't"
  reg_loss :: "'t \<Rightarrow> 't \<Rightarrow> string \<Rightarrow> error + real"
  reg_consistency_loss :: "'t \<Rightarrow> 't \<Rightarrow> string \<Rightarrow> error + real"
  process_log_dict :: "(string \<times> real) list \<Rightarrow> (string \<rightharpoonup> real)"
  num_train_iter :: int
  reg_ulb_loss_ratio :: real

text \<open>
  \<^verbatim>\<open>self.process_out_dict(loss=total_loss, feat=feat_dict)\<close>: the mapping with the keys
  \<^verbatim>\<open>loss\<close> and \<^verbatim>\<open>feat\<close>.
\<close>

record 't out_dict =
  loss :: real
  feat_dict :: "string \<rightharpoonup> 't"

definition call_model ::
  "('x, 't, 'z) algorithm_base_scheme \<Rightarrow> 'x \<Rightarrow> (('x, 'r) train_state, 't model_output) step" where
  "call_model self x = (\<lambda>s.
     (model self (params s) (bn_flags s) x,
      s\<lparr>calls := calls s @ [Forward (params s) (bn_flags s) x]\<rparr>))"

definition call_model_only_feat ::
  "('x, 't, 'z) algorithm_base_scheme \<Rightarrow> 'x \<Rightarrow> (('x, 'r) train_state, 't) step" where
  "call_model_only_feat self x = (\<lambda>s.
     (model_only_feat self (params s) (bn_flags s) x,
      s\<lparr>calls := calls s @ [ForwardFeat (params s) (bn_flags s) x]\<rparr>))"

text \<open>
  \<^verbatim>\<open>for k in kwargs: feat_dict[k] = self.model(kwargs[k], only_feat=True)\<close>, with
  \<^verbatim>\<open>kwargs\<close> as the list of its items in iteration order.
\<close>

fun extra_feats ::
  "('x, 't, 'z) algorithm_base_scheme \<Rightarrow> (string \<times> 'x) list \<Rightarrow> (string \<rightharpoonup> 't) \<Rightarrow>
   (('x, 'r) train_state, string \<rightharpoonup> 't) step" where
  "extra_feats self [] fd = ret fd"
| "extra_feats self ((k, x) # kwargs) fd =
     and_then (call_model_only_feat self x) (\<lambda>f. extra_feats self kwargs (fd(k \<mapsto> f)))"

subsection \<open>MeanTeacher\<close>

record ('x, 't) mean_teacher = "('x, 't) algorithm_base" +
  reg_unsup_warm_up :: real

text \<open>meanteacher.py lines 39 to 77.\<close>

definition MeanTeacher_train_step ::
  "('x, 't, 'z) mean_teacher_scheme \<Rightarrow> 'x \<Rightarrow> 't \<Rightarrow> 'x \<Rightarrow> 'x \<Rightarrow> (string \<times> 'x) list \<Rightarrow>
   (('x, 'r) train_state, 't out_dict \<times> (string \<rightharpoonup> real)) step" where
  "MeanTeacher_train_step self x_lb y_lb x_ulb_w x_ulb_w_2 kwargs =
     and_then (call_model self x_lb) (\<lambda>outs_x_lb.
     and_then apply_shadow (\<lambda>_.
     and_then freeze_bn (\<lambda>_.
     and_then (call_model self x_ulb_w) (\<lambda>outs_x_ulb_w.
     and_then unfreeze_bn (\<lambda>_.
     and_then restore (\<lambda>_.
     and_then freeze_bn (\<lambda>_.
     and_then (call_model self x_ulb_w_2) (\<lambda>outs_x_ulb_w_2.
     and_then unfreeze_bn (\<lambda>_.
     and_then (extra_feats self kwargs
        [''x_lb'' \<mapsto> feat outs_x_lb, ''x_ulb_w'' \<mapsto> feat outs_x_ulb_w,
         ''x_ulb_w_2'' \<mapsto> feat outs_x_ulb_w_2]) (\<lambda>feat_dict.
     and_then (lift (reg_loss self (logits outs_x_lb) y_lb ''mean'')) (\<lambda>sup_loss.
     and_then (lift (reg_consistency_loss self (logits outs_x_ulb_w_2) (logits outs_x_ulb_w) ''mse''))
       (\<lambda>unsup_loss.
     and_then (gets it) (\<lambda>self_it.
     and_then (lift (unsup_warmup self_it (reg_unsup_warm_up self) (num_train_iter self)))
       (\<lambda>unsup_warmup.
     let total_loss = sup_loss + reg_ulb_loss_ratio self * unsup_loss * unsup_warmup
     in ret (\<lparr>loss = total_loss, feat_dict = feat_dict\<rparr>,
             (process_log_dict self [(''total_loss'', total_loss)])
               (''train_reg/sup_loss'' \<mapsto> sup_loss, ''train_reg/unsup_loss'' \<mapsto> unsup_loss,
                ''train_reg/total_loss'' \<mapsto> total_loss))))))))))))))))"

subsection \<open>CLSS\<close>

text \<open>
  The attributes set by \<^verbatim>\<open>CLSS.reg_init\<close>, and the functions the module imports from
  \<^verbatim>\<open>.ordinal_entropy\<close> and \<^verbatim>\<open>.ulb_rank\<close> (not under src/), taken as parameters:
  \<^item> \<open>ordinal_entropy\<close>: \<^verbatim>\<open>ordinal_entropy(features, targets)\<close>;
  \<^item> \<open>ulb_rank\<close>: \<^verbatim>\<open>ulb_rank(features, lambda_val)\<close>, a loss and a rank tensor;
  \<^item> \<open>ulb_rank_prdlb\<close>: \<^verbatim>\<open>ulb_rank_prdlb(logits, lambda_val, pred_inp=...)\<close>;
  \<^item> \<open>unsqueeze\<close>: \<^verbatim>\<open>tensor.unsqueeze(dim)\<close>.
\<close>

record ('x, 't) clss = "('x, 't) algorithm_base" +
  reg_lambda_val :: real
  reg_lb_ctr_loss_ratio :: real
  reg_ulb_ctr_loss_ratio :: real
  reg_ulb_rank_loss_ratio :: real
  ordinal_entropy :: "'t \<Rightarrow> 't \<Rightarrow> error + real"
  ulb_rank :: "'t \<Rightarrow> real \<Rightarrow> error + real \<times> 't"
  ulb_rank_prdlb :: "'t \<Rightarrow> real \<Rightarrow> 't \<Rightarrow> error + real"
  unsqueeze :: "'t \<Rightarrow> int \<Rightarrow> error + 't"

text \<open>clss.py lines 51 to 82.\<close>

definition CLSS_train_step ::
  "('x, 't, 'z) clss_scheme \<Rightarrow> 'x \<Rightarrow> 't \<Rightarrow> 'x \<Rightarrow> (string \<times> 'x) list \<Rightarrow>
   (('x, 'r) train_state, 't out_dict \<times> (string \<rightharpoonup> real)) step" where
  "CLSS_train_step self x_lb y_lb x_ulb_w kwargs =
     and_then (call_model self x_lb) (\<lambda>x_lb_outputs.
     and_then (call_model self x_ulb_w) (\<lambda>x_ulb_outputs.
     and_then (extra_feats self kwargs
        [''x_lb'' \<mapsto> feat x_lb_outputs, ''x_ulb_w'' \<mapsto> feat x_ulb_outputs]) (\<lambda>feat_dict.
     and_then (lift (reg_loss self (logits x_lb_outputs) y_lb ''mean'')) (\<lambda>sup_reg_loss.
     and_then (lift (ordinal_entropy self (feat x_lb_outputs) y_lb)) (\<lambda>sup_ctr_loss.
     let sup_loss = sup_reg_loss + reg_lb_ctr_loss_ratio self * sup_ctr_loss in
     and_then (lift (ulb_rank self (feat x_ulb_outputs) (reg_lambda_val self)))
       (\<lambda>(unsup_ctr_loss, ft_rank).
     and_then (lift (unsqueeze self (logits x_ulb_outputs) 1)) (\<lambda>logits_unsqueezed.
     and_then (lift (ulb_rank_prdlb self logits_unsqueezed (reg_lambda_val self) ft_rank))
       (\<lambda>unsup_rank_loss.
     let unsup_loss = reg_ulb_ctr_loss_ratio self * unsup_ctr_loss
                      + reg_ulb_rank_loss_ratio self * unsup_rank_loss;
         total_loss = sup_loss + unsup_loss
     in ret (\<lparr>loss = total_loss, feat_dict = feat_dict\<rparr>,
             (process_log_dict self [(''total_loss'', total_loss)])
               (''train_reg/sup_loss'' \<mapsto> sup_loss, ''train_reg/unsup_loss'' \<mapsto> unsup_loss,
                ''train_reg/total_loss'' \<mapsto> total_loss))))))))))"

subsection \<open>RankUp\<close>

text \<open>
  What \<^verbatim>\<open>RankUp_Net\<close> returns with \<^verbatim>\<open>use_arc=True\<close>: the keys of a model output
  and \<^verbatim>\<open>outs["logits_arc"]\<close>, \<^verbatim>\<open>outs["targets_arc"]\<close>.
\<close>

record 't arc_output = "'t model_output" +
  logits_arc :: 't
  targets_arc :: 't

text \<open>
  The attributes set by \<^verbatim>\<open>RankUp.init\<close> and \<^verbatim>\<open>RankUp.__init__\<close>, and the
  collaborators of the step (not under src/), taken as parameters. The record extends
  that of MeanTeacher, whose attribute \<^verbatim>\<open>reg_unsup_warm_up\<close> RankUp has too.
  \<^item> \<open>rankup_net\<close>: \<^verbatim>\<open>self.model(x, use_arc=True, targets=...)\<close>, the model that
    \<^verbatim>\<open>set_model\<close> wraps in \<^verbatim>\<open>RankUp_Net\<close>; \<open>None\<close> when no targets are passed;
  \<^item> \<open>compute_prob\<close>: \<^verbatim>\<open>self.compute_prob(logits)\<close>;
  \<^item> \<open>cls_loss\<close>: \<^verbatim>\<open>self.cls_loss(logits, targets, reduction=...)\<close>;
  \<^item> \<open>cls_consistency_loss\<close>: \<^verbatim>\<open>self.cls_consistency_loss(logits, targets, name, mask=...)\<close>;
  \<^item> \<open>rda_hook\<close>: \<^verbatim>\<open>gen_ulb_targets\<close> of the hook registered as \<^verbatim>\<open>"RDAHook"\<close>, from
    the hook's state, \<^verbatim>\<open>self.it\<close>, \<^verbatim>\<open>self.idx_ulb\<close> and the logits, to the targets
    (or an exception) and the hook's new state;
  \<^item> \<open>masking_hook\<close>: \<^verbatim>\<open>masking\<close> of the hook registered as \<^verbatim>\<open>"MaskingHook"\<close>, from
    \<^verbatim>\<open>self.p_cutoff\<close>, \<^verbatim>\<open>logits_x_ulb\<close> and \<^verbatim>\<open>softmax_x_ulb\<close>;
  \<^item> \<open>pseudo_labeling_hook\<close>: \<^verbatim>\<open>gen_ulb_targets\<close> of the hook registered as
    \<^verbatim>\<open>"PseudoLabelingHook"\<close>, from \<^verbatim>\<open>logits\<close>, \<^verbatim>\<open>use_hard_label\<close>, \<^verbatim>\<open>T\<close> and
    \<^verbatim>\<open>softmax\<close>.
\<close>

record ('x, 't, 'm, 'r) rank_up = "('x, 't) mean_teacher" +
  use_rda :: bool
  cls_ulb_loss_ratio :: real
  cls_loss_ratio :: real
  T :: real
  p_cutoff :: real
  use_hard_label :: bool
  rankup_net :: "param_dict \<Rightarrow> bool list \<Rightarrow> 'x \<Rightarrow> 't option \<Rightarrow> error + 't arc_output"
  compute_prob :: "'t \<Rightarrow> error + 't"
  cls_loss :: "'t \<Rightarrow> 't \<Rightarrow> string \<Rightarrow> error + real"
  cls_consistency_loss :: "'t \<Rightarrow> 't \<Rightarrow> string \<Rightarrow> 'm \<Rightarrow> error + real"
  rda_hook :: "'r \<Rightarrow> int \<Rightarrow> nat list \<Rightarrow> 't \<Rightarrow> (error + 't) \<times> 'r"
  masking_hook :: "real \<Rightarrow> 't \<Rightarrow> bool \<Rightarrow> error + 'm"
  pseudo_labeling_hook :: "'t \<Rightarrow> bool \<Rightarrow> real \<Rightarrow> bool \<Rightarrow> error + 't"

definition set_idx_ulb :: "nat list \<Rightarrow> (('x, 'r) train_state, unit) step" where
  "set_idx_ulb idx = (\<lambda>s. (Inr (), s\<lparr>idx_ulb := idx\<rparr>))"

definition call_rankup_net ::
  "('x, 't, 'm, 'r, 'z) rank_up_scheme \<Rightarrow> 'x \<Rightarrow> 't option \<Rightarrow>
   (('x, 'r) train_state, 't arc_output) step" where
  "call_rankup_net self x targets = (\<lambda>s.
     (rankup_net self (params s) (bn_flags s) x targets,
      s\<lparr>calls := calls s @ [Forward (params s) (bn_flags s) x]\<rparr>))"

text \<open>\<^verbatim>\<open>self.call_hook("gen_ulb_targets", "RDAHook", logits=...)\<close>.\<close>

definition call_hook_rda ::
  "('x, 't, 'm, 'r, 'z) rank_up_scheme \<Rightarrow> 't \<Rightarrow> (('x, 'r) train_state, 't) step" where
  "call_hook_rda self lg = (\<lambda>s.
     case rda_hook self (rda s) (it s) (idx_ulb s) lg of
       (res, rda') \<Rightarrow>
         (res, s\<lparr>rda := rda', calls := calls s @ [HookCall ''gen_ulb_targets'' ''RDAHook'']\<rparr>))"

text \<open>\<^verbatim>\<open>self.call_hook("masking", "MaskingHook", logits_x_ulb=..., softmax_x_ulb=...)\<close>.\<close>

definition call_hook_masking ::
  "('x, 't, 'm, 'r, 'z) rank_up_scheme \<Rightarrow> 't \<Rightarrow> bool \<Rightarrow> (('x, 'r) train_state, 'm) step" where
  "call_hook_masking self logits_x_ulb softmax_x_ulb = (\<lambda>s.
     (masking_hook self (p_cutoff self) logits_x_ulb softmax_x_ulb,
      s\<lparr>calls := calls s @ [HookCall ''masking'' ''MaskingHook'']\<rparr>))"

text \<open>
  \<^verbatim>\<open>self.call_hook("gen_ulb_targets", "PseudoLabelingHook", logits=..., use_hard_label=...,
  T=..., softmax=...)\<close>.
\<close>

definition call_hook_pseudo_label ::
  "('x, 't, 'm, 'r, 'z) rank_up_scheme \<Rightarrow> 't \<Rightarrow> bool \<Rightarrow> real \<Rightarrow> bool \<Rightarrow>
   (('x, 'r) train_state, 't) step" where
  "call_hook_pseudo_label self lg hard temperature softmax = (\<lambda>s.
     (pseudo_labeling_hook self lg hard temperature softmax,
      s\<lparr>calls := calls s @ [HookCall ''gen_ulb_targets'' ''PseudoLabelingHook'']\<rparr>))"

text \<open>rankup.py lines 101 to 162.\<close>

definition RankUp_train_step ::
  "('x, 't, 'm, 'r, 'z) rank_up_scheme \<Rightarrow> 'x \<Rightarrow> 't \<Rightarrow> nat list \<Rightarrow> 'x \<Rightarrow> 'x \<Rightarrow>
   (('x, 'r) train_state, 't out_dict \<times> (string \<rightharpoonup> real)) step" where
  "RankUp_train_step self x_lb y_lb idx x_ulb_w x_ulb_s =
     and_then (set_idx_ulb idx) (\<lambda>_.
     and_then (call_rankup_net self x_lb (Some y_lb)) (\<lambda>outs_x_lb.
     and_then freeze_bn (\<lambda>_.
     and_then (call_rankup_net self x_ulb_w None) (\<lambda>outs_x_ulb_w.
     and_then (lift (compute_prob self (logits_arc outs_x_ulb_w))) (\<lambda>probs_x_ulb_w.
     and_then unfreeze_bn (\<lambda>_.
     and_then (call_rankup_net self x_ulb_s None) (\<lambda>outs_x_ulb_s.
     let feat_dict = [''x_lb'' \<mapsto> feat outs_x_lb, ''x_ulb_w'' \<mapsto> feat outs_x_ulb_w,
                      ''x_ulb_s'' \<mapsto> feat outs_x_ulb_s] in
     and_then (lift (reg_loss self (logits outs_x_lb) y_lb ''mean'')) (\<lambda>reg_sup_loss.
     and_then
       (if use_rda self
        then and_then (call_hook_rda self (logits outs_x_ulb_w)) (\<lambda>reg_pseudo_label.
             lift (reg_consistency_loss self (logits outs_x_ulb_w) reg_pseudo_label ''mse''))
        else ret 0) (\<lambda>reg_unsup_loss.
     and_then (call_hook_masking self probs_x_ulb_w False) (\<lambda>mask.
     and_then (call_hook_pseudo_label self probs_x_ulb_w (use_hard_label self) (T self) False)
       (\<lambda>arc_pseudo_label.
     and_then (lift (cls_loss self (logits_arc outs_x_lb) (targets_arc outs_x_lb) ''mean''))
       (\<lambda>cls_sup_loss.
     and_then (lift (cls_consistency_loss self (logits_arc outs_x_ulb_s) arc_pseudo_label ''ce'' mask))
       (\<lambda>cls_unsup_loss.
     and_then (gets it) (\<lambda>self_it.
     and_then (lift (unsup_warmup self_it (reg_unsup_warm_up self) (num_train_iter self)))
       (\<lambda>reg_unsup_warmup.
     let total_reg_loss = reg_sup_loss + reg_ulb_loss_ratio self * reg_unsup_loss * reg_unsup_warmup;
         total_cls_loss = cls_sup_loss + cls_ulb_loss_ratio self * cls_unsup_loss;
         total_loss = total_reg_loss + cls_loss_ratio self * total_cls_loss
     in ret (\<lparr>loss = total_loss, feat_dict = feat_dict\<rparr>,
             process_log_dict self
               [(''reg_loss'', total_reg_loss), (''cls_loss'', total_cls_loss),
                (''total_loss'', total_loss)]))))))))))))))))"

subsection \<open>Masking hook and masked consistency loss\<close>

text \<open>The confidence of a sample: the largest entry of its row of probabilities.\<close>

definition max_probs :: "real list \<Rightarrow> real" where
  "max_probs row = fold max (tl row) (hd row)"

definition softmax_row :: "real list \<Rightarrow> real list" where
  "softmax_row row = map (\<lambda>z. exp z / sum_list (map exp row)) row"

text \<open>
  Modelled from the spec: \<^verbatim>\<open>FixedThresholdingHook.masking\<close> (semilearn.algorithms.hooks,
  not under src/). Spec 4.5: inputs are confidence scores per unlabeled sample (max
  probability, or a provided probability tensor) and a fixed cutoff; the output is a
  binary mask, 1 where confidence is at least the cutoff, else 0; already-softmaxed and
  raw-logit input are told apart by an explicit flag. The input has one row per sample;
  a sample with no entry has no largest probability, and the hook raises.
\<close>

definition masking :: "real \<Rightarrow> real list list \<Rightarrow> bool \<Rightarrow> error + real list" where
  "masking cutoff logits_x_ulb softmax_x_ulb =
     (let probs = (if softmax_x_ulb then map softmax_row logits_x_ulb else logits_x_ulb)
      in if list_ex (\<lambda>row. row = []) probs then Inl (Raised ''max of an empty dimension'')
         else Inr (map (\<lambda>row. if cutoff \<le> max_probs row then 1 else 0) probs))"

text \<open>
  Modelled from the spec: \<^verbatim>\<open>ClsConsistencyLoss\<close> (semilearn.core.criterions, of which
  only the package's import list is under src/). Spec 2 and glossary: a loss primitive
  turns predictions, targets and an optional mask into a scalar, and masking zeroes out
  the loss contribution of low-confidence samples. The per-sample kernel (cross-entropy
  for the name \<^verbatim>\<open>"ce"\<close>) is a parameter; each sample's loss is weighted by its mask entry
  and the batch is reduced by its mean. A mask whose length is not the batch size is a
  shape mismatch (spec 7), and the mean of an empty batch is not a number: both are
  errors here.
\<close>

definition masked_consistency_loss ::
  "('a \<Rightarrow> 'b \<Rightarrow> real) \<Rightarrow> 'a list \<Rightarrow> 'b list \<Rightarrow> real list \<Rightarrow> error + real" where
  "masked_consistency_loss per_sample lgs targets sample_mask =
     (if length targets \<noteq> length lgs \<or> length sample_mask \<noteq> length lgs
      then Inl (Raised ''shape mismatch'')
      else if lgs = [] then Inl (Raised ''mean of an empty batch'')
      else Inr (sum_list (map2 (\<lambda>l m. l * m) (map2 per_sample lgs targets) sample_mask)
                / real (length lgs)))"

subsection \<open>The calls of a student pass\<close>

text \<open>
  A forward pass of the model that runs with the given parameters and batch-norm flags;
  no call on the EMA controller, on the batch-norm controller or on a hook is one.
\<close>

fun student_pass :: "param_dict \<Rightarrow> bool list \<Rightarrow> 'x call \<Rightarrow> bool" where
  "student_pass ps fl (Forward ps' fl' x) = (ps' = ps \<and> fl' = fl)"
| "student_pass ps fl (ForwardFeat ps' fl' x) = (ps' = ps \<and> fl' = fl)"
| "student_pass ps fl _ = False"

subsection \<open>Example instances\<close>

text \<open>
  A network with one weight \<open>w\<close>, whose prediction on the input \<open>x\<close> is \<open>w * x\<close> and
  which rejects a negative input; squared error as both regression losses.
\<close>

definition toy_model :: "param_dict \<Rightarrow> bool list \<Rightarrow> real \<Rightarrow> error + real model_output" where
  "toy_model ps fl x =
     (if x < 0 then Inl (Raised ''negative input'')
      else case ps ''w'' of
             Some [w] \<Rightarrow> Inr \<lparr>logits = w * x, feat = x\<rparr>
           | _ \<Rightarrow> Inl (Raised ''no weight''))"

definition toy_mean_teacher :: "(real, real) mean_teacher" where
  "toy_mean_teacher =
     \<lparr>model = toy_model,
      model_only_feat = (\<lambda>ps fl x. if x < 0 then Inl (Raised ''negative input'') else Inr x),
      reg_loss = (\<lambda>lg y reduction. Inr ((lg - y)\<^sup>2)),
      reg_consistency_loss = (\<lambda>lg y name. Inr ((lg - y)\<^sup>2)),
      process_log_dict = map_of,
      num_train_iter = 1000,
      reg_ulb_loss_ratio = 1,
      reg_unsup_warm_up = 4 / 10\<rparr>"

definition toy_clss :: "(real, real) clss" where
  "toy_clss =
     \<lparr>model = toy_model,
      model_only_feat = (\<lambda>ps fl x. if x < 0 then Inl (Raised ''negative input'') else Inr x),
      reg_loss = (\<lambda>lg y reduction. Inr ((lg - y)\<^sup>2)),
      reg_consistency_loss = (\<lambda>lg y name. Inr ((lg - y)\<^sup>2)),
      process_log_dict = map_of,
      num_train_iter = 1000,
      reg_ulb_loss_ratio = 1,
      reg_lambda_val = 2,
      reg_lb_ctr_loss_ratio = 1,
      reg_ulb_ctr_loss_ratio = 5 / 100,
      reg_ulb_rank_loss_ratio = 1 / 100,
      ordinal_entropy = (\<lambda>ft y. Inr 4),
      ulb_rank = (\<lambda>ft lambda_val. Inr (20, ft)),
      ulb_rank_prdlb = (\<lambda>lg lambda_val pred_inp. Inr 100),
      unsqueeze = (\<lambda>t dim. Inr t)\<rparr>"

text \<open>Live weight 1, shadow weight 2, one normalization layer that updates its statistics.\<close>

definition toy_state :: "(real, nat) train_state" where
  "toy_state =
     \<lparr>params = [''w'' \<mapsto> [1]], ema_shadow = [''w'' \<mapsto> [2]], ema_backup = None,
      bn_flags = [True], bn_backup = None, it = 200, idx_ulb = [], rda = 0, calls = []\<rparr>"

text \<open>
  A RankUp instance on batches of rows: the network returns its input on every head and
  rejects an empty batch, the inputs are already probabilities, the masking hook and the
  masked consistency loss are the ones above with a constant per-sample loss of 7, and
  the RDA hook returns the logits and counts its calls.
\<close>

definition toy_rank_up :: "(real list list, real list list, real list, nat) rank_up" where
  "toy_rank_up =
     \<lparr>model = (\<lambda>ps fl x. Inr \<lparr>logits = x, feat = x\<rparr>),
      model_only_feat = (\<lambda>ps fl x. Inr x),
      reg_loss = (\<lambda>lg y reduction. Inr 2),
      reg_consistency_loss = (\<lambda>lg y name. Inr 3),
      process_log_dict = map_of,
      num_train_iter = 1000,
      reg_ulb_loss_ratio = 1,
      reg_unsup_warm_up = 4 / 10,
      use_rda = False,
      cls_ulb_loss_ratio = 1,
      cls_loss_ratio = 1,
      T = 1 / 2,
      p_cutoff = 1,
      use_hard_label = True,
      rankup_net = (\<lambda>ps fl x targets.
         if x = [] then Inl (Raised ''empty batch'')
         else Inr \<lparr>logits = x, feat = x, logits_arc = x,
                   targets_arc = (case targets of None \<Rightarrow> [] | Some y \<Rightarrow> y)\<rparr>),
      compute_prob = Inr,
      cls_loss = (\<lambda>lg y reduction. Inr 5),
      cls_consistency_loss = (\<lambda>lg y name m. masked_consistency_loss (\<lambda>l t. 7) lg y m),
      rda_hook = (\<lambda>r i idx lg. (Inr lg, Suc r)),
      masking_hook = masking,
      pseudo_labeling_hook = (\<lambda>lg hard temperature softmax. Inr lg)\<rparr>"

text \<open>Four unlabeled samples over two classes; no confidence is 1.\<close>

definition toy_batch :: "real list list" where
  "toy_batch = [[3 / 10, 7 / 10], [6 / 10, 4 / 10], [1 / 2, 1 / 2], [9 / 10, 1 / 10]]"

definition toy_rank_state :: "(real list list, nat) train_state" where
  "toy_rank_state =
     \<lparr>params = [''w'' \<mapsto> [1]], ema_shadow = [''w'' \<mapsto> [2]], ema_backup = None,
      bn_flags = [True], bn_backup = None, it = 200, idx_ulb = [], rda = 0, calls = []\<rparr>"

section \<open>Properties\<close>

subsection \<open>The warm-up ramp\<close>

lemma np_clip_bounds: "a_min \<le> a_max \<Longrightarrow> a_min \<le> np_clip a a_min a_max \<and> np_clip a a_min a_max \<le> a_max"
  by (simp add: np_clip_def)

lemma np_clip_mono: "a \<le> b \<Longrightarrow> np_clip a lo hi \<le> np_clip b lo hi"
  by (auto simp: np_clip_def min_def max_def)

lemma np_clip_top: "lo \<le> hi \<Longrightarrow> hi \<le> a \<Longrightarrow> np_clip a lo hi = hi"
  by (auto simp: np_clip_def min_def max_def)

lemma unsup_warmup_defined:
  "w * real_of_int n \<noteq> 0 \<Longrightarrow>
   unsup_warmup i w n =
     Inr (np_clip (real_of_int i / (w * real_of_int n)) 0 1)"
  by (simp add: unsup_warmup_def)

text \<open>
  C1. For an iteration counter \<open>i \<ge> 0\<close>, a number of training iterations \<open>n > 0\<close> and a
  warm-up fraction \<open>w > 0\<close>, the ramp of a train step is \<open>clip(i / (w * n), 0, 1)\<close>.
  The ramp lies in \<open>[0, 1]\<close>, equals 1 as soon as \<open>i \<ge> w * n\<close>, and does not decrease
  when the iteration counter grows.
\<close>

theorem warm_up_ramp:
  assumes "0 \<le> i" and "0 < n" and "0 < w"
  shows "unsup_warmup i w n =
           Inr (np_clip (real_of_int i / (w * real_of_int n)) 0 1)
       \<and> 0 \<le> np_clip (real_of_int i / (w * real_of_int n)) 0 1
       \<and> np_clip (real_of_int i / (w * real_of_int n)) 0 1 \<le> 1
       \<and> (w * real_of_int n \<le> real_of_int i \<longrightarrow>
            unsup_warmup i w n = Inr 1)
       \<and> (\<forall>i'. i \<le> i' \<longrightarrow>
            (\<exists>r r'. unsup_warmup i w n = Inr r
                  \<and> unsup_warmup i' w n = Inr r' \<and> r \<le> r'))"
proof -
  let ?d = "w * real_of_int n"
  from assms have d: "0 < ?d" by simp
  then have "?d \<noteq> 0" by linarith
  then have def: "\<And>i. unsup_warmup i w n = Inr (np_clip (real_of_int i / ?d) 0 1)"
    by (rule unsup_warmup_defined)
  have bounds: "0 \<le> np_clip (real_of_int i / ?d) 0 1 \<and> np_clip (real_of_int i / ?d) 0 1 \<le> 1"
    using np_clip_bounds [of 0 1] by simp
  have top: "unsup_warmup i w n = Inr 1" if "?d \<le> real_of_int i"
  proof -
    from that d have "1 \<le> real_of_int i / ?d" by (simp add: le_divide_eq)
    then show ?thesis using np_clip_top [of 0 1] by (simp add: def)
  qed
  have mono: "\<exists>r r'. unsup_warmup i w n = Inr r
                  \<and> unsup_warmup i' w n = Inr r' \<and> r \<le> r'" if "i \<le> i'" for i'
  proof -
    from that d have "real_of_int i / ?d \<le> real_of_int i' / ?d"
      by (simp add: divide_right_mono)
    then show ?thesis by (simp add: def np_clip_mono)
  qed
  from def bounds top mono show ?thesis by blast
qed

theorem warm_up_ramp_witness:
  "unsup_warmup 200 (4 / 10) 1000 = Inr (1 / 2) \<and> unsup_warmup 400 (4 / 10) 1000 = Inr 1"
  using warm_up_ramp [of 200 1000 "4 / 10"] warm_up_ramp [of 400 1000 "4 / 10"]
  by (simp add: np_clip_def)

text \<open>
  C3, as the code behaves. With a warm-up fraction of 0 the divisor
  \<^verbatim>\<open>self.reg_unsup_warm_up * self.num_train_iter\<close> is zero: at every iteration the
  evaluation of the ramp raises \<^verbatim>\<open>ZeroDivisionError\<close> and yields no value.
\<close>

theorem warm_up_zero_fraction_raises:
  "unsup_warmup i 0 n = Inl ZeroDivisionError"
  by (simp add: unsup_warmup_def)

text \<open>C3 as stated fails at the first iteration of a run of 100 iterations.\<close>

theorem warm_up_zero_fraction_counterexample:
  "unsup_warmup 0 0 100 \<noteq> Inr 1"
  by (simp add: unsup_warmup_def)

subsection \<open>Sequencing\<close>

lemma and_then_Inr: "m s = (Inr a, s') \<Longrightarrow> and_then m f s = f a s'"
  by (simp add: and_then_def)

lemma and_then_InrD:
  "and_then m f s = (Inr b, s'') \<Longrightarrow> \<exists>a s'. m s = (Inr a, s') \<and> f a s' = (Inr b, s'')"
  by (auto simp: and_then_def split: prod.splits sum.splits)

lemma and_then_pure:
  "(\<And>s. snd (m s) = s) \<Longrightarrow> (\<And>a s. snd (f a s) = s) \<Longrightarrow> snd (and_then m f s) = s"
  by (simp add: and_then_def split: prod.splits sum.splits) (metis snd_conv)

lemmas step_defs = and_then_def call_model_def call_model_only_feat_def apply_shadow_def
  freeze_bn_def unfreeze_bn_def restore_def lift_def gets_def ret_def Let_def

lemmas toy_defs = toy_mean_teacher_def toy_clss_def toy_state_def toy_model_def

subsection \<open>The extra feature passes\<close>

text \<open>When every extra pass returns, the loop has recorded one pass per keyword argument.\<close>

lemma extra_feats_Inr:
  "extra_feats self kwargs fd s = (Inr fd', s') \<Longrightarrow>
   s' = s\<lparr>calls := calls s @ map (\<lambda>(k, x). ForwardFeat (params s) (bn_flags s) x) kwargs\<rparr>"
proof (induction kwargs arbitrary: fd s)
  case Nil
  then show ?case by (simp add: ret_def)
next
  case (Cons kx kwargs)
  obtain k x where kx: "kx = (k, x)" by (cases kx)
  from Cons.prems obtain f s1 where
    1: "call_model_only_feat self x s = (Inr f, s1)" and
    2: "extra_feats self kwargs (fd(k \<mapsto> f)) s1 = (Inr fd', s')"
    unfolding kx extra_feats.simps by (blast dest: and_then_InrD)
  from 1 have s1: "s1 = s\<lparr>calls := calls s @ [ForwardFeat (params s) (bn_flags s) x]\<rparr>"
    by (auto simp: call_model_only_feat_def)
  from Cons.IH [OF 2] show ?case by (simp add: s1 kx)
qed

text \<open>The value of the loop depends on the state through the parameters and the flags only.\<close>

lemma extra_feats_fst_cong:
  "params s' = params s \<Longrightarrow> bn_flags s' = bn_flags s \<Longrightarrow>
   fst (extra_feats self kwargs fd s') = fst (extra_feats self kwargs fd s)"
proof (induction kwargs arbitrary: fd s s')
  case Nil
  then show ?case by (simp add: ret_def)
next
  case (Cons kx kwargs)
  obtain k x where kx: "kx = (k, x)" by (cases kx)
  let ?c = "ForwardFeat (params s) (bn_flags s) x"
  show ?case
  proof (cases "model_only_feat self (params s) (bn_flags s) x")
    case (Inl e)
    with Cons.prems show ?thesis
      by (simp add: kx and_then_def call_model_only_feat_def)
  next
    case (Inr f)
    have "fst (extra_feats self kwargs (fd(k \<mapsto> f)) (s'\<lparr>calls := calls s' @ [?c]\<rparr>)) =
          fst (extra_feats self kwargs (fd(k \<mapsto> f)) (s\<lparr>calls := calls s @ [?c]\<rparr>))"
      by (rule Cons.IH) (simp_all add: Cons.prems)
    with Inr Cons.prems show ?thesis
      by (simp add: kx and_then_def call_model_only_feat_def del: fun_upd_apply)
  qed
qed

lemma extra_feats_run:
  assumes "fst (extra_feats self kwargs fd s) = Inr fd'"
    and "params s' = params s" and "bn_flags s' = bn_flags s"
  shows "extra_feats self kwargs fd s' =
           (Inr fd', s'\<lparr>calls := calls s' @ map (\<lambda>(k, x). ForwardFeat (params s) (bn_flags s) x) kwargs\<rparr>)"
proof -
  from extra_feats_fst_cong [OF assms(2,3), of self kwargs fd] assms(1)
  have "fst (extra_feats self kwargs fd s') = Inr fd'"
    by simp
  then obtain s'' where run: "extra_feats self kwargs fd s' = (Inr fd', s'')"
    by (cases "extra_feats self kwargs fd s'") simp
  from extra_feats_Inr [OF run] assms(2,3) show ?thesis by (simp add: run)
qed

text \<open>Whatever the loop returns, it only adds student passes to the calls.\<close>

lemma extra_feats_frame:
  "\<exists>cs. snd (extra_feats self kwargs fd s) = s\<lparr>calls := calls s @ cs\<rparr>
      \<and> list_all (student_pass (params s) (bn_flags s)) cs"
proof (induction kwargs arbitrary: fd s)
  case Nil
  have "snd (extra_feats self [] fd s) = s\<lparr>calls := calls s @ []\<rparr>" by (simp add: ret_def)
  then show ?case by (intro exI [of _ "[]"]) simp
next
  case (Cons kx kwargs)
  obtain k x where kx: "kx = (k, x)" by (cases kx)
  let ?c = "ForwardFeat (params s) (bn_flags s) x"
  let ?s1 = "s\<lparr>calls := calls s @ [?c]\<rparr>"
  show ?case
  proof (cases "model_only_feat self (params s) (bn_flags s) x")
    case (Inl e)
    then have "snd (extra_feats self (kx # kwargs) fd s) = s\<lparr>calls := calls s @ [?c]\<rparr>"
      by (simp add: kx and_then_def call_model_only_feat_def)
    then show ?thesis by (intro exI [of _ "[?c]"]) simp
  next
    case (Inr f)
    from Cons.IH [of "fd(k \<mapsto> f)" ?s1] obtain cs where
      cs: "snd (extra_feats self kwargs (fd(k \<mapsto> f)) ?s1) = ?s1\<lparr>calls := calls ?s1 @ cs\<rparr>"
      and ok: "list_all (student_pass (params s) (bn_flags s)) cs"
      by (auto simp del: fun_upd_apply)
    from Inr cs have "snd (extra_feats self (kx # kwargs) fd s) = s\<lparr>calls := calls s @ (?c # cs)\<rparr>"
      by (simp add: kx and_then_def call_model_only_feat_def del: fun_upd_apply)
    with ok show ?thesis by (intro exI [of _ "?c # cs"]) simp
  qed
qed

subsection \<open>MeanTeacher\<close>

lemma toy_params_differ: "[''w'' \<mapsto> [2::real]] \<noteq> [''w'' \<mapsto> [1]]"
proof
  assume "[''w'' \<mapsto> [2::real]] = [''w'' \<mapsto> [1]]"
  then have "[2::real] = [1]" by (rule map_upd_eqD1)
  then show False by simp
qed

text \<open>
  A run on the example: labeled input 1 with target 1, first weak view 3, second weak
  view 5, one extra input 2, at iteration 200 of 1000.
\<close>

lemma toy_mean_teacher_run:
  "MeanTeacher_train_step toy_mean_teacher 1 1 3 5 [(''x_extra'', 2)] toy_state =
     (Inr (\<lparr>loss = 1 / 2,
            feat_dict = [''x_lb'' \<mapsto> 1, ''x_ulb_w'' \<mapsto> 3, ''x_ulb_w_2'' \<mapsto> 5, ''x_extra'' \<mapsto> 2]\<rparr>,
           (map_of [(''total_loss'', 1 / 2)])
             (''train_reg/sup_loss'' \<mapsto> 0, ''train_reg/unsup_loss'' \<mapsto> 1,
              ''train_reg/total_loss'' \<mapsto> 1 / 2)),
      toy_state\<lparr>calls :=
        [Forward [''w'' \<mapsto> [1]] [True] 1, ApplyShadow, FreezeBN,
         Forward [''w'' \<mapsto> [2]] [False] 3, UnfreezeBN, Restore, FreezeBN,
         Forward [''w'' \<mapsto> [1]] [False] 5, UnfreezeBN,
         ForwardFeat [''w'' \<mapsto> [1]] [True] 2]\<rparr>)"
  by (simp add: MeanTeacher_train_step_def toy_defs step_defs unsup_warmup_def np_clip_def
      fun_upd_same del: fun_upd_apply)

text \<open>
  C5, as the code behaves. In \<^verbatim>\<open>MeanTeacher.train_step\<close> the teacher-mode pass is the pass
  on the first weak view \<^verbatim>\<open>x_ulb_w\<close>: it runs with the EMA shadow applied and batch-norm
  frozen, in the nested order apply_shadow; freeze_bn; forward(x_ulb_w); unfreeze_bn;
  restore. The second weak view \<^verbatim>\<open>x_ulb_w_2\<close> then passes through the model with the live
  parameters and batch-norm frozen. On normal completion of the step the parameters
  and every batch-norm flag equal their values from before the teacher pass.
\<close>

theorem teacher_pass_on_first_weak_view:
  assumes "MeanTeacher_train_step self x_lb y_lb x_ulb_w x_ulb_w_2 kwargs s = (Inr r, s')"
  shows "calls s' = calls s @
           [Forward (params s) (bn_flags s) x_lb,
            ApplyShadow, FreezeBN,
            Forward (ema_shadow s) (map (\<lambda>_. False) (bn_flags s)) x_ulb_w,
            UnfreezeBN, Restore,
            FreezeBN,
            Forward (params s) (map (\<lambda>_. False) (bn_flags s)) x_ulb_w_2,
            UnfreezeBN]
           @ map (\<lambda>(k, x). ForwardFeat (params s) (bn_flags s) x) kwargs
       \<and> params s' = params s \<and> bn_flags s' = bn_flags s \<and> ema_shadow s' = ema_shadow s"
proof -
  from assms have
    "s' = s\<lparr>calls := calls s @
           [Forward (params s) (bn_flags s) x_lb,
            ApplyShadow, FreezeBN,
            Forward (ema_shadow s) (map (\<lambda>_. False) (bn_flags s)) x_ulb_w,
            UnfreezeBN, Restore,
            FreezeBN,
            Forward (params s) (map (\<lambda>_. False) (bn_flags s)) x_ulb_w_2,
            UnfreezeBN]
           @ map (\<lambda>(k, x). ForwardFeat (params s) (bn_flags s) x) kwargs,
           ema_backup := None, bn_backup := None\<rparr>"
    unfolding MeanTeacher_train_step_def
    apply (auto dest!: and_then_InrD)
    apply (auto simp: call_model_def apply_shadow_def freeze_bn_def unfreeze_bn_def restore_def
        lift_def gets_def ret_def Let_def dest!: extra_feats_Inr)
    done
  then show ?thesis by simp
qed

theorem teacher_pass_on_first_weak_view_witness:
  "calls (snd (MeanTeacher_train_step toy_mean_teacher 1 1 3 5 [(''x_extra'', 2)] toy_state)) =
     [Forward [''w'' \<mapsto> [1]] [True] 1, ApplyShadow, FreezeBN,
      Forward [''w'' \<mapsto> [2]] [False] 3, UnfreezeBN, Restore, FreezeBN,
      Forward [''w'' \<mapsto> [1]] [False] 5, UnfreezeBN,
      ForwardFeat [''w'' \<mapsto> [1]] [True] 2]
   \<and> params (snd (MeanTeacher_train_step toy_mean_teacher 1 1 3 5 [(''x_extra'', 2)] toy_state))
       = params toy_state
   \<and> bn_flags (snd (MeanTeacher_train_step toy_mean_teacher 1 1 3 5 [(''x_extra'', 2)] toy_state))
       = bn_flags toy_state"
proof -
  have "\<exists>r s'. MeanTeacher_train_step toy_mean_teacher 1 1 3 5 [(''x_extra'', 2)] toy_state = (Inr r, s')"
    by (simp add: toy_mean_teacher_run)
  then obtain r s' where
    run: "MeanTeacher_train_step toy_mean_teacher 1 1 3 5 [(''x_extra'', 2)] toy_state = (Inr r, s')"
    by blast
  from teacher_pass_on_first_weak_view [OF run] run show ?thesis
    by (simp add: toy_state_def)
qed

text \<open>
  C5 as stated fails on the example: the step completes, no pass on the second weak view
  5 runs with the shadow parameters, and the pass on it runs with the live parameters.
\<close>

theorem teacher_pass_counterexample:
  "\<not> isl (fst (MeanTeacher_train_step toy_mean_teacher 1 1 3 5 [(''x_extra'', 2)] toy_state))
   \<and> Forward (ema_shadow toy_state) [False] 5
        \<notin> set (calls (snd (MeanTeacher_train_step toy_mean_teacher 1 1 3 5 [(''x_extra'', 2)] toy_state)))
   \<and> Forward (params toy_state) [False] 5
        \<in> set (calls (snd (MeanTeacher_train_step toy_mean_teacher 1 1 3 5 [(''x_extra'', 2)] toy_state)))"
  by (simp add: toy_mean_teacher_run toy_params_differ) (simp add: toy_state_def toy_params_differ)

text \<open>
  C6. When the three forward passes, the extra feature passes, the two losses and the
  ramp return, \<^verbatim>\<open>MeanTeacher.train_step\<close> returns
  \<open>total_loss = sup_loss + reg_ulb_loss_ratio * unsup_loss * warm_up(it)\<close>, where
  \<open>sup_loss\<close> is the mean regression loss of the labeled logits against \<open>y_lb\<close> and
  \<open>unsup_loss\<close> is the MSE consistency loss between the logits of the live model on the
  second weak view and the logits of the EMA teacher on the first weak view.
\<close>

theorem MeanTeacher_total_loss:
  assumes lb: "model self (params s) (bn_flags s) x_lb = Inr o_lb"
    and w: "model self (ema_shadow s) (map (\<lambda>_. False) (bn_flags s)) x_ulb_w = Inr o_w"
    and w2: "model self (params s) (map (\<lambda>_. False) (bn_flags s)) x_ulb_w_2 = Inr o_w2"
    and extra: "fst (extra_feats self kwargs
                  [''x_lb'' \<mapsto> feat o_lb, ''x_ulb_w'' \<mapsto> feat o_w, ''x_ulb_w_2'' \<mapsto> feat o_w2] s)
                = Inr fd"
    and sup: "reg_loss self (logits o_lb) y_lb ''mean'' = Inr sup_loss"
    and unsup: "reg_consistency_loss self (logits o_w2) (logits o_w) ''mse'' = Inr unsup_loss"
    and ramp: "unsup_warmup (it s) (reg_unsup_warm_up self) (num_train_iter self) = Inr ramp"
  shows "fst (MeanTeacher_train_step self x_lb y_lb x_ulb_w x_ulb_w_2 kwargs s) =
           Inr (\<lparr>loss = sup_loss + reg_ulb_loss_ratio self * unsup_loss * ramp, feat_dict = fd\<rparr>,
                (process_log_dict self
                   [(''total_loss'', sup_loss + reg_ulb_loss_ratio self * unsup_loss * ramp)])
                  (''train_reg/sup_loss'' \<mapsto> sup_loss, ''train_reg/unsup_loss'' \<mapsto> unsup_loss,
                   ''train_reg/total_loss'' \<mapsto> sup_loss + reg_ulb_loss_ratio self * unsup_loss * ramp))"
  unfolding MeanTeacher_train_step_def
  by (simp add: and_then_def call_model_def apply_shadow_def freeze_bn_def unfreeze_bn_def
      restore_def lift_def gets_def ret_def Let_def lb w w2 sup unsup ramp extra_feats_run [OF extra])

theorem MeanTeacher_total_loss_witness:
  "map_sum id (\<lambda>r. loss (fst r))
     (fst (MeanTeacher_train_step toy_mean_teacher 1 1 3 5 [(''x_extra'', 2)] toy_state))
   = Inr (0 + 1 * 1 * (1 / 2))"
proof -
  have lb: "model toy_mean_teacher (params toy_state) (bn_flags toy_state) 1
              = Inr \<lparr>logits = 1, feat = 1\<rparr>"
    by (simp add: toy_defs)
  have w: "model toy_mean_teacher (ema_shadow toy_state) (map (\<lambda>_. False) (bn_flags toy_state)) 3
              = Inr \<lparr>logits = 6, feat = 3\<rparr>"
    by (simp add: toy_defs)
  have w2: "model toy_mean_teacher (params toy_state) (map (\<lambda>_. False) (bn_flags toy_state)) 5
              = Inr \<lparr>logits = 5, feat = 5\<rparr>"
    by (simp add: toy_defs)
  have extra: "fst (extra_feats toy_mean_teacher [(''x_extra'', 2)]
                 [''x_lb'' \<mapsto> feat \<lparr>logits = 1, feat = 1\<rparr>,
                  ''x_ulb_w'' \<mapsto> feat \<lparr>logits = 6, feat = 3\<rparr>,
                  ''x_ulb_w_2'' \<mapsto> feat \<lparr>logits = 5, feat = 5::real\<rparr>] toy_state)
               = Inr [''x_lb'' \<mapsto> 1, ''x_ulb_w'' \<mapsto> 3, ''x_ulb_w_2'' \<mapsto> 5, ''x_extra'' \<mapsto> 2]"
    by (simp add: toy_defs step_defs del: fun_upd_apply)
  have sup: "reg_loss toy_mean_teacher (logits \<lparr>logits = 1, feat = 1\<rparr>) 1 ''mean'' = Inr 0"
    by (simp add: toy_defs)
  have unsup: "reg_consistency_loss toy_mean_teacher (logits \<lparr>logits = 5, feat = 5\<rparr>)
                 (logits \<lparr>logits = 6, feat = 3\<rparr>) ''mse'' = Inr 1"
    by (simp add: toy_defs)
  have ramp: "unsup_warmup (it toy_state) (reg_unsup_warm_up toy_mean_teacher)
                (num_train_iter toy_mean_teacher) = Inr (1 / 2)"
    by (simp add: toy_defs unsup_warmup_def np_clip_def)
  from MeanTeacher_total_loss [OF lb w w2 extra sup unsup ramp] show ?thesis
    by (simp add: toy_defs)
qed

lemma MeanTeacher_teacher_raises:
  assumes lb: "model self (params s) (bn_flags s) x_lb = Inr o_lb"
    and w: "model self (ema_shadow s) (map (\<lambda>_. False) (bn_flags s)) x_ulb_w = Inl e"
  shows "MeanTeacher_train_step self x_lb y_lb x_ulb_w x_ulb_w_2 kwargs s =
           (Inl e, s\<lparr>params := ema_shadow s, ema_backup := Some (params s),
                     bn_flags := map (\<lambda>_. False) (bn_flags s), bn_backup := Some (bn_flags s),
                     calls := calls s @
                       [Forward (params s) (bn_flags s) x_lb, ApplyShadow, FreezeBN,
                        Forward (ema_shadow s) (map (\<lambda>_. False) (bn_flags s)) x_ulb_w]\<rparr>)"
  unfolding MeanTeacher_train_step_def
  by (simp add: and_then_def call_model_def apply_shadow_def freeze_bn_def lb w)

lemma MeanTeacher_student_raises:
  assumes lb: "model self (params s) (bn_flags s) x_lb = Inr o_lb"
    and w: "model self (ema_shadow s) (map (\<lambda>_. False) (bn_flags s)) x_ulb_w = Inr o_w"
    and w2: "model self (params s) (map (\<lambda>_. False) (bn_flags s)) x_ulb_w_2 = Inl e"
  shows "MeanTeacher_train_step self x_lb y_lb x_ulb_w x_ulb_w_2 kwargs s =
           (Inl e, s\<lparr>ema_backup := None,
                     bn_flags := map (\<lambda>_. False) (bn_flags s), bn_backup := Some (bn_flags s),
                     calls := calls s @
                       [Forward (params s) (bn_flags s) x_lb, ApplyShadow, FreezeBN,
                        Forward (ema_shadow s) (map (\<lambda>_. False) (bn_flags s)) x_ulb_w,
                        UnfreezeBN, Restore, FreezeBN,
                        Forward (params s) (map (\<lambda>_. False) (bn_flags s)) x_ulb_w_2]\<rparr>)"
  unfolding MeanTeacher_train_step_def
  by (simp add: and_then_def call_model_def apply_shadow_def freeze_bn_def unfreeze_bn_def
      restore_def lb w w2)

subsection \<open>CLSS\<close>

lemma CLSS_losses_pure:
  "snd ((and_then (lift (reg_loss self lg_lb y_lb ''mean'')) (\<lambda>sup_reg_loss.
     and_then (lift (ordinal_entropy self ft_lb y_lb)) (\<lambda>sup_ctr_loss.
     let sup_loss = sup_reg_loss + reg_lb_ctr_loss_ratio self * sup_ctr_loss in
     and_then (lift (ulb_rank self ft_w (reg_lambda_val self)))
       (\<lambda>(unsup_ctr_loss, ft_rank).
     and_then (lift (unsqueeze self lg_w 1)) (\<lambda>logits_unsqueezed.
     and_then (lift (ulb_rank_prdlb self logits_unsqueezed (reg_lambda_val self) ft_rank))
       (\<lambda>unsup_rank_loss.
     let unsup_loss = reg_ulb_ctr_loss_ratio self * unsup_ctr_loss
                      + reg_ulb_rank_loss_ratio self * unsup_rank_loss;
         total_loss = sup_loss + unsup_loss
     in ret (\<lparr>loss = total_loss, feat_dict = fd\<rparr>,
             (process_log_dict self [(''total_loss'', total_loss)])
               (''train_reg/sup_loss'' \<mapsto> sup_loss, ''train_reg/unsup_loss'' \<mapsto> unsup_loss,
                ''train_reg/total_loss'' \<mapsto> total_loss)))))))) s) = s"
  unfolding Let_def split_def
  by (intro and_then_pure) (simp_all add: lift_def ret_def)

lemma CLSS_value:
  assumes lb: "model self (params s) (bn_flags s) x_lb = Inr o_lb"
    and w: "model self (params s) (bn_flags s) x_ulb_w = Inr o_w"
    and extra: "fst (extra_feats self kwargs
                  [''x_lb'' \<mapsto> feat o_lb, ''x_ulb_w'' \<mapsto> feat o_w] s) = Inr fd"
    and sup: "reg_loss self (logits o_lb) y_lb ''mean'' = Inr sup_reg_loss"
    and ctr: "ordinal_entropy self (feat o_lb) y_lb = Inr sup_ctr_loss"
    and ur: "ulb_rank self (feat o_w) (reg_lambda_val self) = Inr (unsup_ctr_loss, ft_rank)"
    and us: "unsqueeze self (logits o_w) 1 = Inr lu"
    and urp: "ulb_rank_prdlb self lu (reg_lambda_val self) ft_rank = Inr unsup_rank_loss"
  shows "CLSS_train_step self x_lb y_lb x_ulb_w kwargs s =
           (Inr (\<lparr>loss = sup_reg_loss + reg_lb_ctr_loss_ratio self * sup_ctr_loss
                        + (reg_ulb_ctr_loss_ratio self * unsup_ctr_loss
                           + reg_ulb_rank_loss_ratio self * unsup_rank_loss),
                  feat_dict = fd\<rparr>,
                (process_log_dict self
                   [(''total_loss'', sup_reg_loss + reg_lb_ctr_loss_ratio self * sup_ctr_loss
                        + (reg_ulb_ctr_loss_ratio self * unsup_ctr_loss
                           + reg_ulb_rank_loss_ratio self * unsup_rank_loss))])
                  (''train_reg/sup_loss'' \<mapsto> sup_reg_loss + reg_lb_ctr_loss_ratio self * sup_ctr_loss,
                   ''train_reg/unsup_loss'' \<mapsto> reg_ulb_ctr_loss_ratio self * unsup_ctr_loss
                           + reg_ulb_rank_loss_ratio self * unsup_rank_loss,
                   ''train_reg/total_loss'' \<mapsto> sup_reg_loss + reg_lb_ctr_loss_ratio self * sup_ctr_loss
                        + (reg_ulb_ctr_loss_ratio self * unsup_ctr_loss
                           + reg_ulb_rank_loss_ratio self * unsup_rank_loss))),
            s\<lparr>calls := calls s @
                 [Forward (params s) (bn_flags s) x_lb, Forward (params s) (bn_flags s) x_ulb_w]
                 @ map (\<lambda>(k, x). ForwardFeat (params s) (bn_flags s) x) kwargs\<rparr>)"
  unfolding CLSS_train_step_def
  by (simp add: and_then_def call_model_def lift_def ret_def Let_def
      lb w sup ctr ur us urp extra_feats_run [OF extra] del: fun_upd_apply)

text \<open>
  C7. When the two forward passes, the extra feature passes and the four loss functions
  return, \<^verbatim>\<open>CLSS.train_step\<close> returns
  \<open>total_loss = reg_loss(logits_x_lb, y_lb) + reg_lb_ctr_loss_ratio * ordinal_entropy(feats_x_lb, y_lb)
  + reg_ulb_ctr_loss_ratio * unsup_ctr_loss + reg_ulb_rank_loss_ratio * unsup_rank_loss\<close>,
  the two unsupervised terms coming from \<^verbatim>\<open>ulb_rank\<close> and \<^verbatim>\<open>ulb_rank_prdlb\<close> on the weak
  unlabeled view. The three ratios are the only weights: whatever the iteration counter
  \<open>i\<close> is, the step returns this value, so no warm-up factor enters.
\<close>

theorem CLSS_total_loss:
  assumes lb: "model self (params s) (bn_flags s) x_lb = Inr o_lb"
    and w: "model self (params s) (bn_flags s) x_ulb_w = Inr o_w"
    and extra: "fst (extra_feats self kwargs
                  [''x_lb'' \<mapsto> feat o_lb, ''x_ulb_w'' \<mapsto> feat o_w] s) = Inr fd"
    and sup: "reg_loss self (logits o_lb) y_lb ''mean'' = Inr sup_reg_loss"
    and ctr: "ordinal_entropy self (feat o_lb) y_lb = Inr sup_ctr_loss"
    and ur: "ulb_rank self (feat o_w) (reg_lambda_val self) = Inr (unsup_ctr_loss, ft_rank)"
    and us: "unsqueeze self (logits o_w) 1 = Inr lu"
    and urp: "ulb_rank_prdlb self lu (reg_lambda_val self) ft_rank = Inr unsup_rank_loss"
  shows "map_sum id (\<lambda>r. (loss (fst r), feat_dict (fst r)))
           (fst (CLSS_train_step self x_lb y_lb x_ulb_w kwargs (s\<lparr>it := i\<rparr>))) =
         Inr (sup_reg_loss + reg_lb_ctr_loss_ratio self * sup_ctr_loss
                + reg_ulb_ctr_loss_ratio self * unsup_ctr_loss
                + reg_ulb_rank_loss_ratio self * unsup_rank_loss, fd)"
proof -
  let ?s = "s\<lparr>it := i\<rparr>"
  have lb': "model self (params ?s) (bn_flags ?s) x_lb = Inr o_lb" using lb by simp
  have w': "model self (params ?s) (bn_flags ?s) x_ulb_w = Inr o_w" using w by simp
  have extra': "fst (extra_feats self kwargs
                  [''x_lb'' \<mapsto> feat o_lb, ''x_ulb_w'' \<mapsto> feat o_w] ?s) = Inr fd"
    using extra_feats_fst_cong [of ?s s self kwargs "[''x_lb'' \<mapsto> feat o_lb, ''x_ulb_w'' \<mapsto> feat o_w]"]
      extra by simp
  show ?thesis
    by (simp only: CLSS_value [OF lb' w' extra' sup ctr ur us urp]) simp
qed

theorem CLSS_total_loss_witness:
  "map_sum id (\<lambda>r. (loss (fst r), feat_dict (fst r)))
     (fst (CLSS_train_step toy_clss 1 1 3 [] (toy_state\<lparr>it := 777\<rparr>))) =
   Inr (0 + 1 * 4 + 5 / 100 * 20 + 1 / 100 * 100, [''x_lb'' \<mapsto> 1, ''x_ulb_w'' \<mapsto> 3])"
proof -
  have lb: "model toy_clss (params toy_state) (bn_flags toy_state) 1 = Inr \<lparr>logits = 1, feat = 1\<rparr>"
    by (simp add: toy_defs)
  have w: "model toy_clss (params toy_state) (bn_flags toy_state) 3 = Inr \<lparr>logits = 3, feat = 3\<rparr>"
    by (simp add: toy_defs)
  have extra: "fst (extra_feats toy_clss []
                 [''x_lb'' \<mapsto> feat \<lparr>logits = 1, feat = 1\<rparr>,
                  ''x_ulb_w'' \<mapsto> feat \<lparr>logits = 3, feat = 3::real\<rparr>] toy_state)
               = Inr [''x_lb'' \<mapsto> 1, ''x_ulb_w'' \<mapsto> 3]"
    by (simp add: ret_def del: fun_upd_apply)
  have sup: "reg_loss toy_clss (logits \<lparr>logits = 1, feat = 1\<rparr>) 1 ''mean'' = Inr 0"
    by (simp add: toy_defs)
  have ctr: "ordinal_entropy toy_clss (feat \<lparr>logits = 1, feat = 1\<rparr>) 1 = Inr 4"
    by (simp add: toy_defs)
  have ur: "ulb_rank toy_clss (feat \<lparr>logits = 3, feat = 3\<rparr>) (reg_lambda_val toy_clss) = Inr (20, 3)"
    by (simp add: toy_defs)
  have us: "unsqueeze toy_clss (logits \<lparr>logits = 3, feat = 3\<rparr>) 1 = Inr 3"
    by (simp add: toy_defs)
  have urp: "ulb_rank_prdlb toy_clss 3 (reg_lambda_val toy_clss) 3 = Inr 100"
    by (simp add: toy_defs)
  from CLSS_total_loss [OF lb w extra sup ctr ur us urp, of 777] show ?thesis
    by (simp add: toy_clss_def)
qed

text \<open>
  C10. \<^verbatim>\<open>CLSS.train_step\<close> calls neither the EMA controller nor the batch-norm
  controller: whatever the batch and whether the step returns or raises, the state
  after the step is the state before it with some calls added, so the parameters, the
  EMA shadow and backup and every batch-norm flag are unchanged; and every call
  added is a forward pass of the model with the live parameters and the flags of before.
\<close>

theorem CLSS_leaves_controllers_alone:
  "\<exists>cs. snd (CLSS_train_step self x_lb y_lb x_ulb_w kwargs s) = s\<lparr>calls := calls s @ cs\<rparr>
      \<and> list_all (student_pass (params s) (bn_flags s)) cs"
proof -
  let ?c1 = "Forward (params s) (bn_flags s) x_lb"
  let ?c2 = "Forward (params s) (bn_flags s) x_ulb_w"
  let ?s2 = "s\<lparr>calls := calls s @ [?c1, ?c2]\<rparr>"
  show ?thesis
  proof (cases "model self (params s) (bn_flags s) x_lb")
    case (Inl e)
    then have "snd (CLSS_train_step self x_lb y_lb x_ulb_w kwargs s) = s\<lparr>calls := calls s @ [?c1]\<rparr>"
      by (simp add: CLSS_train_step_def and_then_def call_model_def)
    then show ?thesis by (intro exI [of _ "[?c1]"]) simp
  next
    case lb: (Inr o_lb)
    show ?thesis
    proof (cases "model self (params s) (bn_flags s) x_ulb_w")
      case (Inl e)
      with lb have "snd (CLSS_train_step self x_lb y_lb x_ulb_w kwargs s) = s\<lparr>calls := calls s @ [?c1, ?c2]\<rparr>"
        by (simp add: CLSS_train_step_def and_then_def call_model_def)
      then show ?thesis by (intro exI [of _ "[?c1, ?c2]"]) simp
    next
      case w: (Inr o_w)
      let ?fd = "[''x_lb'' \<mapsto> feat o_lb, ''x_ulb_w'' \<mapsto> feat o_w]"
      from extra_feats_frame [of self kwargs ?fd ?s2] obtain cs where
        cs: "snd (extra_feats self kwargs ?fd ?s2) = ?s2\<lparr>calls := calls ?s2 @ cs\<rparr>"
        and ok: "list_all (student_pass (params s) (bn_flags s)) cs"
        by auto
      have "snd (CLSS_train_step self x_lb y_lb x_ulb_w kwargs s) = s\<lparr>calls := calls s @ (?c1 # ?c2 # cs)\<rparr>"
      proof (cases "extra_feats self kwargs ?fd ?s2")
        case (Pair r s3)
        with cs have s3: "s3 = s\<lparr>calls := calls s @ (?c1 # ?c2 # cs)\<rparr>" by simp
        show ?thesis
        proof (cases r)
          case (Inl e)
          with lb w Pair s3 show ?thesis
            by (simp add: CLSS_train_step_def and_then_def call_model_def del: fun_upd_apply)
        next
          case (Inr fd)
          have "CLSS_train_step self x_lb y_lb x_ulb_w kwargs s =
                (and_then (lift (reg_loss self (logits o_lb) y_lb ''mean'')) (\<lambda>sup_reg_loss.
     and_then (lift (ordinal_entropy self (feat o_lb) y_lb)) (\<lambda>sup_ctr_loss.
     let sup_loss = sup_reg_loss + reg_lb_ctr_loss_ratio self * sup_ctr_loss in
     and_then (lift (ulb_rank self (feat o_w) (reg_lambda_val self)))
       (\<lambda>(unsup_ctr_loss, ft_rank).
     and_then (lift (unsqueeze self (logits o_w) 1)) (\<lambda>logits_unsqueezed.
     and_then (lift (ulb_rank_prdlb self logits_unsqueezed (reg_lambda_val self) ft_rank))
       (\<lambda>unsup_rank_loss.
     let unsup_loss = reg_ulb_ctr_loss_ratio self * unsup_ctr_loss
                      + reg_ulb_rank_loss_ratio self * unsup_rank_loss;
         total_loss = sup_loss + unsup_loss
     in ret (\<lparr>loss = total_loss, feat_dict = fd\<rparr>,
             (process_log_dict self [(''total_loss'', total_loss)])
               (''train_reg/sup_loss'' \<mapsto> sup_loss, ''train_reg/unsup_loss'' \<mapsto> unsup_loss,
                ''train_reg/total_loss'' \<mapsto> total_loss)))))))) s3"
            unfolding CLSS_train_step_def
            using lb w Pair Inr
            by (simp add: and_then_Inr call_model_def del: fun_upd_apply)
          then show ?thesis by (simp only: CLSS_losses_pure s3)
        qed
      qed
      with ok show ?thesis by (intro exI [of _ "?c1 # ?c2 # cs"]) simp
    qed
  qed
qed

theorem CLSS_leaves_controllers_alone_witness:
  "\<exists>cs. snd (CLSS_train_step toy_clss 1 1 3 [(''x_extra'', - 1)] toy_state)
          = toy_state\<lparr>calls := calls toy_state @ cs\<rparr>
      \<and> list_all (student_pass (params toy_state) (bn_flags toy_state)) cs"
  by (rule CLSS_leaves_controllers_alone)

subsection \<open>RankUp\<close>

lemmas rankup_defs = set_idx_ulb_def call_rankup_net_def call_hook_rda_def
  call_hook_masking_def call_hook_pseudo_label_def

lemmas toy_rank_defs = toy_rank_up_def toy_rank_state_def toy_batch_def

text \<open>The step when every collaborator returns, with and without RDA.\<close>

lemma RankUp_value:
  assumes lb: "rankup_net self (params s) (bn_flags s) x_lb (Some y_lb) = Inr o_lb"
    and w: "rankup_net self (params s) (map (\<lambda>_. False) (bn_flags s)) x_ulb_w None = Inr o_w"
    and pr: "compute_prob self (logits_arc o_w) = Inr probs"
    and st: "rankup_net self (params s) (bn_flags s) x_ulb_s None = Inr o_s"
    and sup: "reg_loss self (logits o_lb) y_lb ''mean'' = Inr reg_sup_loss"
    and rdaT: "use_rda self \<Longrightarrow>
               rda_hook self (rda s) (it s) idx (logits o_w) = (Inr pseudo, rda')
               \<and> reg_consistency_loss self (logits o_w) pseudo ''mse'' = Inr reg_unsup_loss"
    and rdaF: "\<not> use_rda self \<Longrightarrow> reg_unsup_loss = 0 \<and> rda' = rda s"
    and mk: "masking_hook self (p_cutoff self) probs False = Inr msk"
    and pl: "pseudo_labeling_hook self probs (use_hard_label self) (T self) False = Inr pseudo_arc"
    and csup: "cls_loss self (logits_arc o_lb) (targets_arc o_lb) ''mean'' = Inr cls_sup_loss"
    and cunsup: "cls_consistency_loss self (logits_arc o_s) pseudo_arc ''ce'' msk = Inr cls_unsup_loss"
    and ramp: "unsup_warmup (it s) (reg_unsup_warm_up self) (num_train_iter self) = Inr ramp"
  shows "RankUp_train_step self x_lb y_lb idx x_ulb_w x_ulb_s s =
           (Inr (\<lparr>loss = reg_sup_loss + reg_ulb_loss_ratio self * reg_unsup_loss * ramp
                        + cls_loss_ratio self * (cls_sup_loss + cls_ulb_loss_ratio self * cls_unsup_loss),
                  feat_dict = [''x_lb'' \<mapsto> feat o_lb, ''x_ulb_w'' \<mapsto> feat o_w,
                               ''x_ulb_s'' \<mapsto> feat o_s]\<rparr>,
                 process_log_dict self
                   [(''reg_loss'', reg_sup_loss + reg_ulb_loss_ratio self * reg_unsup_loss * ramp),
                    (''cls_loss'', cls_sup_loss + cls_ulb_loss_ratio self * cls_unsup_loss),
                    (''total_loss'', reg_sup_loss + reg_ulb_loss_ratio self * reg_unsup_loss * ramp
                        + cls_loss_ratio self * (cls_sup_loss + cls_ulb_loss_ratio self * cls_unsup_loss))]),
            s\<lparr>bn_backup := None, idx_ulb := idx, rda := rda',
              calls := calls s @
                [Forward (params s) (bn_flags s) x_lb, FreezeBN,
                 Forward (params s) (map (\<lambda>_. False) (bn_flags s)) x_ulb_w, UnfreezeBN,
                 Forward (params s) (bn_flags s) x_ulb_s]
                @ (if use_rda self then [HookCall ''gen_ulb_targets'' ''RDAHook''] else [])
                @ [HookCall ''masking'' ''MaskingHook'',
                   HookCall ''gen_ulb_targets'' ''PseudoLabelingHook'']\<rparr>)"
proof (cases "use_rda self")
  case True
  with rdaT have hook: "rda_hook self (rda s) (it s) idx (logits o_w) = (Inr pseudo, rda')"
    and cons: "reg_consistency_loss self (logits o_w) pseudo ''mse'' = Inr reg_unsup_loss"
    by simp_all
  show ?thesis
    unfolding RankUp_train_step_def
    by (simp add: True and_then_def rankup_defs freeze_bn_def unfreeze_bn_def lift_def gets_def
        ret_def Let_def lb w pr st sup hook cons mk pl csup cunsup ramp del: fun_upd_apply)
next
  case False
  with rdaF have z: "reg_unsup_loss = 0" and r: "rda' = rda s" by simp_all
  show ?thesis
    unfolding RankUp_train_step_def
    by (simp add: False z r and_then_def rankup_defs freeze_bn_def unfreeze_bn_def lift_def
        gets_def ret_def Let_def lb w pr st sup mk pl csup cunsup ramp del: fun_upd_apply)
qed

lemma RankUp_weak_pass_raises:
  assumes lb: "rankup_net self (params s) (bn_flags s) x_lb (Some y_lb) = Inr o_lb"
    and w: "rankup_net self (params s) (map (\<lambda>_. False) (bn_flags s)) x_ulb_w None = Inl e"
  shows "RankUp_train_step self x_lb y_lb idx x_ulb_w x_ulb_s s =
           (Inl e, s\<lparr>bn_flags := map (\<lambda>_. False) (bn_flags s), bn_backup := Some (bn_flags s),
                     idx_ulb := idx,
                     calls := calls s @
                       [Forward (params s) (bn_flags s) x_lb, FreezeBN,
                        Forward (params s) (map (\<lambda>_. False) (bn_flags s)) x_ulb_w]\<rparr>)"
  unfolding RankUp_train_step_def
  by (simp add: and_then_def set_idx_ulb_def call_rankup_net_def freeze_bn_def lb w)

text \<open>
  C2, as the code behaves. A train step has no handler around its forward passes. If the
  pass that runs with the EMA shadow applied and batch-norm frozen raises, the
  exception propagates at once: \<^verbatim>\<open>restore()\<close> and \<^verbatim>\<open>unfreeze_bn()\<close> are not called, the
  model's parameters are the shadow's and every batch-norm flag is "do not update",
  and the values of before the step are left in the backups of the two controllers.
  If the later batch-norm-frozen pass of MeanTeacher on the second weak view raises, or
  the batch-norm-frozen pass of RankUp on the weak view, the parameters are the live
  ones and the flags stay frozen.
\<close>

theorem failed_pass_leaves_state_unrestored:
  "(model mt (params s) (bn_flags s) x_lb = Inr o_lb
      \<and> model mt (ema_shadow s) (map (\<lambda>_. False) (bn_flags s)) x_ulb_w = Inl e
    \<longrightarrow> MeanTeacher_train_step mt x_lb y_lb x_ulb_w x_ulb_w_second kwargs s =
          (Inl e, s\<lparr>params := ema_shadow s, ema_backup := Some (params s),
                    bn_flags := map (\<lambda>_. False) (bn_flags s), bn_backup := Some (bn_flags s),
                    calls := calls s @
                      [Forward (params s) (bn_flags s) x_lb, ApplyShadow, FreezeBN,
                       Forward (ema_shadow s) (map (\<lambda>_. False) (bn_flags s)) x_ulb_w]\<rparr>))
   \<and> (model mt (params s) (bn_flags s) x_lb = Inr o_lb
      \<and> model mt (ema_shadow s) (map (\<lambda>_. False) (bn_flags s)) x_ulb_w = Inr o_w
      \<and> model mt (params s) (map (\<lambda>_. False) (bn_flags s)) x_ulb_w_second = Inl e
    \<longrightarrow> MeanTeacher_train_step mt x_lb y_lb x_ulb_w x_ulb_w_second kwargs s =
          (Inl e, s\<lparr>ema_backup := None,
                    bn_flags := map (\<lambda>_. False) (bn_flags s), bn_backup := Some (bn_flags s),
                    calls := calls s @
                      [Forward (params s) (bn_flags s) x_lb, ApplyShadow, FreezeBN,
                       Forward (ema_shadow s) (map (\<lambda>_. False) (bn_flags s)) x_ulb_w,
                       UnfreezeBN, Restore, FreezeBN,
                       Forward (params s) (map (\<lambda>_. False) (bn_flags s)) x_ulb_w_second]\<rparr>))
   \<and> (rankup_net ru (params t) (bn_flags t) u_lb (Some v_lb) = Inr p_lb
      \<and> rankup_net ru (params t) (map (\<lambda>_. False) (bn_flags t)) u_ulb_w None = Inl e'
    \<longrightarrow> RankUp_train_step ru u_lb v_lb idx u_ulb_w u_ulb_s t =
          (Inl e', t\<lparr>bn_flags := map (\<lambda>_. False) (bn_flags t), bn_backup := Some (bn_flags t),
                     idx_ulb := idx,
                     calls := calls t @
                       [Forward (params t) (bn_flags t) u_lb, FreezeBN,
                        Forward (params t) (map (\<lambda>_. False) (bn_flags t)) u_ulb_w]\<rparr>))"
proof (intro conjI impI)
  assume "model mt (params s) (bn_flags s) x_lb = Inr o_lb
      \<and> model mt (ema_shadow s) (map (\<lambda>_. False) (bn_flags s)) x_ulb_w = Inl e"
  then show "MeanTeacher_train_step mt x_lb y_lb x_ulb_w x_ulb_w_second kwargs s =
          (Inl e, s\<lparr>params := ema_shadow s, ema_backup := Some (params s),
                    bn_flags := map (\<lambda>_. False) (bn_flags s), bn_backup := Some (bn_flags s),
                    calls := calls s @
                      [Forward (params s) (bn_flags s) x_lb, ApplyShadow, FreezeBN,
                       Forward (ema_shadow s) (map (\<lambda>_. False) (bn_flags s)) x_ulb_w]\<rparr>)"
    by (intro MeanTeacher_teacher_raises) simp_all
next
  assume "model mt (params s) (bn_flags s) x_lb = Inr o_lb
      \<and> model mt (ema_shadow s) (map (\<lambda>_. False) (bn_flags s)) x_ulb_w = Inr o_w
      \<and> model mt (params s) (map (\<lambda>_. False) (bn_flags s)) x_ulb_w_second = Inl e"
  then show "MeanTeacher_train_step mt x_lb y_lb x_ulb_w x_ulb_w_second kwargs s =
          (Inl e, s\<lparr>ema_backup := None,
                    bn_flags := map (\<lambda>_. False) (bn_flags s), bn_backup := Some (bn_flags s),
                    calls := calls s @
                      [Forward (params s) (bn_flags s) x_lb, ApplyShadow, FreezeBN,
                       Forward (ema_shadow s) (map (\<lambda>_. False) (bn_flags s)) x_ulb_w,
                       UnfreezeBN, Restore, FreezeBN,
                       Forward (params s) (map (\<lambda>_. False) (bn_flags s)) x_ulb_w_second]\<rparr>)"
    by (intro MeanTeacher_student_raises) simp_all
next
  assume "rankup_net ru (params t) (bn_flags t) u_lb (Some v_lb) = Inr p_lb
      \<and> rankup_net ru (params t) (map (\<lambda>_. False) (bn_flags t)) u_ulb_w None = Inl e'"
  then show "RankUp_train_step ru u_lb v_lb idx u_ulb_w u_ulb_s t =
          (Inl e', t\<lparr>bn_flags := map (\<lambda>_. False) (bn_flags t), bn_backup := Some (bn_flags t),
                     idx_ulb := idx,
                     calls := calls t @
                       [Forward (params t) (bn_flags t) u_lb, FreezeBN,
                        Forward (params t) (map (\<lambda>_. False) (bn_flags t)) u_ulb_w]\<rparr>)"
    by (intro RankUp_weak_pass_raises) simp_all
qed

theorem failed_pass_leaves_state_unrestored_witness:
  "fst (MeanTeacher_train_step toy_mean_teacher 1 1 (- 1) 5 [] toy_state)
     = Inl (Raised ''negative input'')
   \<and> params (snd (MeanTeacher_train_step toy_mean_teacher 1 1 (- 1) 5 [] toy_state))
     = ema_shadow toy_state
   \<and> ema_backup (snd (MeanTeacher_train_step toy_mean_teacher 1 1 (- 1) 5 [] toy_state))
     = Some (params toy_state)
   \<and> fst (MeanTeacher_train_step toy_mean_teacher 1 1 3 (- 1) [] toy_state)
     = Inl (Raised ''negative input'')
   \<and> bn_flags (snd (MeanTeacher_train_step toy_mean_teacher 1 1 3 (- 1) [] toy_state)) = [False]
   \<and> fst (RankUp_train_step toy_rank_up toy_batch [[1]] [0, 1, 2, 3] [] toy_batch toy_rank_state)
     = Inl (Raised ''empty batch'')
   \<and> bn_flags (snd (RankUp_train_step toy_rank_up toy_batch [[1]] [0, 1, 2, 3] [] toy_batch
        toy_rank_state)) = [False]
   \<and> bn_backup (snd (RankUp_train_step toy_rank_up toy_batch [[1]] [0, 1, 2, 3] [] toy_batch
        toy_rank_state)) = Some [True]"
proof -
  have a: "model toy_mean_teacher (params toy_state) (bn_flags toy_state) 1
             = Inr \<lparr>logits = 1, feat = 1\<rparr>
         \<and> model toy_mean_teacher (ema_shadow toy_state) (map (\<lambda>_. False) (bn_flags toy_state)) (- 1)
             = Inl (Raised ''negative input'')"
    by (simp add: toy_defs)
  have b: "model toy_mean_teacher (params toy_state) (bn_flags toy_state) 1
             = Inr \<lparr>logits = 1, feat = 1\<rparr>
         \<and> model toy_mean_teacher (ema_shadow toy_state) (map (\<lambda>_. False) (bn_flags toy_state)) 3
             = Inr \<lparr>logits = 6, feat = 3\<rparr>
         \<and> model toy_mean_teacher (params toy_state) (map (\<lambda>_. False) (bn_flags toy_state)) (- 1)
             = Inl (Raised ''negative input'')"
    by (simp add: toy_defs)
  have c: "rankup_net toy_rank_up (params toy_rank_state) (bn_flags toy_rank_state) toy_batch (Some [[1]])
             = Inr \<lparr>logits = toy_batch, feat = toy_batch, logits_arc = toy_batch, targets_arc = [[1]]\<rparr>
         \<and> rankup_net toy_rank_up (params toy_rank_state) (map (\<lambda>_. False) (bn_flags toy_rank_state))
               [] None
             = Inl (Raised ''empty batch'')"
    by (simp add: toy_rank_defs)
  note r1 = failed_pass_leaves_state_unrestored [THEN conjunct1, rule_format, OF a]
  note r2 = failed_pass_leaves_state_unrestored [THEN conjunct2, THEN conjunct1, rule_format, OF b]
  note r3 = failed_pass_leaves_state_unrestored [THEN conjunct2, THEN conjunct2, rule_format, OF c]
  show ?thesis
    by (simp add: r1 r2 r3) (simp add: toy_state_def toy_rank_state_def)
qed

text \<open>
  C2 as stated fails on the example, where the first weak view is rejected by the
  network: the exception propagates with the shadow weight 2 in place of the live
  weight 1 and with the flag of the normalization layer off instead of on.
\<close>

theorem failed_pass_counterexample:
  "fst (MeanTeacher_train_step toy_mean_teacher 1 1 (- 1) 5 [] toy_state) = Inl (Raised ''negative input'')
   \<and> params (snd (MeanTeacher_train_step toy_mean_teacher 1 1 (- 1) 5 [] toy_state)) ''w'' = Some [2]
   \<and> params toy_state ''w'' = Some [1]
   \<and> bn_flags (snd (MeanTeacher_train_step toy_mean_teacher 1 1 (- 1) 5 [] toy_state)) = [False]
   \<and> bn_flags toy_state = [True]"
  by (simp add: MeanTeacher_train_step_def toy_defs step_defs)

text \<open>Facts about the RankUp example that the evaluations below share.\<close>

lemma toy_rank_net:
  "x \<noteq> [] \<Longrightarrow>
   rankup_net (toy_rank_up\<lparr>use_rda := b\<rparr>) ps fl x targets =
     Inr \<lparr>logits = x, feat = x, logits_arc = x,
          targets_arc = (case targets of None \<Rightarrow> [] | Some y \<Rightarrow> y)\<rparr>"
  by (simp add: toy_rank_up_def)

lemma toy_rank_mask: "masking 1 toy_batch False = Inr [0, 0, 0, 0]"
  by (simp add: masking_def toy_batch_def max_probs_def)

lemma toy_rank_masked_loss:
  "masked_consistency_loss (\<lambda>l t. 7) toy_batch toy_batch [0, 0, 0, 0] = Inr 0"
  by (simp add: masked_consistency_loss_def toy_batch_def)

text \<open>
  C4. With \<^verbatim>\<open>use_rda\<close> false, when the collaborators of \<^verbatim>\<open>RankUp.train_step\<close> return, the
  step returns with \<open>total_reg_loss\<close> equal to the supervised regression loss alone,
  whatever \<open>reg_ulb_loss_ratio\<close> and the value of the ramp are; the RDA hook is not called
  (its state is unchanged and the calls of the step have no call on it).
\<close>

theorem RankUp_without_rda:
  assumes off: "\<not> use_rda self"
    and lb: "rankup_net self (params s) (bn_flags s) x_lb (Some y_lb) = Inr o_lb"
    and w: "rankup_net self (params s) (map (\<lambda>_. False) (bn_flags s)) x_ulb_w None = Inr o_w"
    and pr: "compute_prob self (logits_arc o_w) = Inr probs"
    and st: "rankup_net self (params s) (bn_flags s) x_ulb_s None = Inr o_s"
    and sup: "reg_loss self (logits o_lb) y_lb ''mean'' = Inr reg_sup_loss"
    and mk: "masking_hook self (p_cutoff self) probs False = Inr msk"
    and pl: "pseudo_labeling_hook self probs (use_hard_label self) (T self) False = Inr pseudo_arc"
    and csup: "cls_loss self (logits_arc o_lb) (targets_arc o_lb) ''mean'' = Inr cls_sup_loss"
    and cunsup: "cls_consistency_loss self (logits_arc o_s) pseudo_arc ''ce'' msk = Inr cls_unsup_loss"
    and ramp: "unsup_warmup (it s) (reg_unsup_warm_up self) (num_train_iter self) = Inr ramp"
  shows "RankUp_train_step self x_lb y_lb idx x_ulb_w x_ulb_s s =
           (Inr (\<lparr>loss = reg_sup_loss
                        + cls_loss_ratio self * (cls_sup_loss + cls_ulb_loss_ratio self * cls_unsup_loss),
                  feat_dict = [''x_lb'' \<mapsto> feat o_lb, ''x_ulb_w'' \<mapsto> feat o_w,
                               ''x_ulb_s'' \<mapsto> feat o_s]\<rparr>,
                 process_log_dict self
                   [(''reg_loss'', reg_sup_loss),
                    (''cls_loss'', cls_sup_loss + cls_ulb_loss_ratio self * cls_unsup_loss),
                    (''total_loss'', reg_sup_loss
                        + cls_loss_ratio self * (cls_sup_loss + cls_ulb_loss_ratio self * cls_unsup_loss))]),
            s\<lparr>bn_backup := None, idx_ulb := idx,
              calls := calls s @
                [Forward (params s) (bn_flags s) x_lb, FreezeBN,
                 Forward (params s) (map (\<lambda>_. False) (bn_flags s)) x_ulb_w, UnfreezeBN,
                 Forward (params s) (bn_flags s) x_ulb_s,
                 HookCall ''masking'' ''MaskingHook'',
                 HookCall ''gen_ulb_targets'' ''PseudoLabelingHook'']\<rparr>)"
  using RankUp_value [where reg_unsup_loss = 0 and rda' = "rda s",
      OF lb w pr st sup _ _ mk pl csup cunsup ramp] off
  by simp

theorem RankUp_without_rda_witness:
  "map_sum id (\<lambda>r. loss (fst r))
     (fst (RankUp_train_step toy_rank_up toy_batch [[1]] [0, 1, 2, 3] toy_batch toy_batch
        toy_rank_state)) = Inr (2 + 1 * (5 + 1 * 0))
   \<and> rda (snd (RankUp_train_step toy_rank_up toy_batch [[1]] [0, 1, 2, 3] toy_batch toy_batch
        toy_rank_state)) = rda toy_rank_state
   \<and> HookCall ''gen_ulb_targets'' ''RDAHook''
        \<notin> set (calls (snd (RankUp_train_step toy_rank_up toy_batch [[1]] [0, 1, 2, 3] toy_batch
             toy_batch toy_rank_state)))"
proof -
  have ne: "toy_batch \<noteq> []" by (simp add: toy_batch_def)
  have off: "\<not> use_rda toy_rank_up" by (simp add: toy_rank_up_def)
  have lb: "rankup_net toy_rank_up (params toy_rank_state) (bn_flags toy_rank_state) toy_batch
              (Some [[1]])
            = Inr \<lparr>logits = toy_batch, feat = toy_batch, logits_arc = toy_batch, targets_arc = [[1]]\<rparr>"
    using toy_rank_net [OF ne, of False] by (simp add: toy_rank_up_def)
  have w: "rankup_net toy_rank_up (params toy_rank_state) (map (\<lambda>_. False) (bn_flags toy_rank_state))
              toy_batch None
            = Inr \<lparr>logits = toy_batch, feat = toy_batch, logits_arc = toy_batch, targets_arc = []\<rparr>"
    using toy_rank_net [OF ne, of False] by (simp add: toy_rank_up_def)
  have pr: "compute_prob toy_rank_up
              (logits_arc \<lparr>logits = toy_batch, feat = toy_batch, logits_arc = toy_batch, targets_arc = []\<rparr>)
            = Inr toy_batch"
    by (simp add: toy_rank_up_def)
  have st: "rankup_net toy_rank_up (params toy_rank_state) (bn_flags toy_rank_state) toy_batch None
            = Inr \<lparr>logits = toy_batch, feat = toy_batch, logits_arc = toy_batch, targets_arc = []\<rparr>"
    using toy_rank_net [OF ne, of False] by (simp add: toy_rank_up_def)
  have sup: "reg_loss toy_rank_up
               (logits \<lparr>logits = toy_batch, feat = toy_batch, logits_arc = toy_batch,
                        targets_arc = [[1]]\<rparr>) [[1]] ''mean'' = Inr 2"
    by (simp add: toy_rank_up_def)
  have mk: "masking_hook toy_rank_up (p_cutoff toy_rank_up) toy_batch False = Inr [0, 0, 0, 0]"
    using toy_rank_mask by (simp add: toy_rank_up_def)
  have pl: "pseudo_labeling_hook toy_rank_up toy_batch (use_hard_label toy_rank_up) (T toy_rank_up)
              False = Inr toy_batch"
    by (simp add: toy_rank_up_def)
  have csup: "cls_loss toy_rank_up
                (logits_arc \<lparr>logits = toy_batch, feat = toy_batch, logits_arc = toy_batch,
                             targets_arc = [[1]]\<rparr>)
                (targets_arc \<lparr>logits = toy_batch, feat = toy_batch, logits_arc = toy_batch,
                              targets_arc = [[1]]\<rparr>) ''mean'' = Inr 5"
    by (simp add: toy_rank_up_def)
  have cunsup: "cls_consistency_loss toy_rank_up
                  (logits_arc \<lparr>logits = toy_batch, feat = toy_batch, logits_arc = toy_batch,
                               targets_arc = []\<rparr>) toy_batch ''ce'' [0, 0, 0, 0] = Inr 0"
    using toy_rank_masked_loss by (simp add: toy_rank_up_def)
  have ramp: "unsup_warmup (it toy_rank_state) (reg_unsup_warm_up toy_rank_up)
                (num_train_iter toy_rank_up) = Inr (1 / 2)"
    by (simp add: toy_rank_up_def toy_rank_state_def unsup_warmup_def np_clip_def)
  from RankUp_without_rda [OF off lb w pr st sup mk pl csup cunsup ramp] show ?thesis
    by (simp add: toy_rank_up_def toy_rank_state_def)
qed

text \<open>
  C9. In \<^verbatim>\<open>RankUp.train_step\<close> the ramp multiplies the regression unsupervised loss
  only: \<open>total_cls_loss = cls_sup_loss + cls_ulb_loss_ratio * cls_unsup_loss\<close> and
  \<open>total_loss = total_reg_loss + cls_loss_ratio * total_cls_loss\<close>. At whatever iteration
  \<open>i\<close> the step runs, the classification terms enter with these same weights.
\<close>

theorem RankUp_total_loss:
  assumes lb: "rankup_net self (params s) (bn_flags s) x_lb (Some y_lb) = Inr o_lb"
    and w: "rankup_net self (params s) (map (\<lambda>_. False) (bn_flags s)) x_ulb_w None = Inr o_w"
    and pr: "compute_prob self (logits_arc o_w) = Inr probs"
    and st: "rankup_net self (params s) (bn_flags s) x_ulb_s None = Inr o_s"
    and sup: "reg_loss self (logits o_lb) y_lb ''mean'' = Inr reg_sup_loss"
    and rdaT: "use_rda self \<Longrightarrow>
               rda_hook self (rda s) i idx (logits o_w) = (Inr pseudo, rda')
               \<and> reg_consistency_loss self (logits o_w) pseudo ''mse'' = Inr reg_unsup_loss"
    and rdaF: "\<not> use_rda self \<Longrightarrow> reg_unsup_loss = 0 \<and> rda' = rda s"
    and mk: "masking_hook self (p_cutoff self) probs False = Inr msk"
    and pl: "pseudo_labeling_hook self probs (use_hard_label self) (T self) False = Inr pseudo_arc"
    and csup: "cls_loss self (logits_arc o_lb) (targets_arc o_lb) ''mean'' = Inr cls_sup_loss"
    and cunsup: "cls_consistency_loss self (logits_arc o_s) pseudo_arc ''ce'' msk = Inr cls_unsup_loss"
    and ramp: "unsup_warmup i (reg_unsup_warm_up self) (num_train_iter self) = Inr ramp"
  shows "fst (RankUp_train_step self x_lb y_lb idx x_ulb_w x_ulb_s (s\<lparr>it := i\<rparr>)) =
           Inr (\<lparr>loss = (reg_sup_loss + reg_ulb_loss_ratio self * reg_unsup_loss * ramp)
                        + cls_loss_ratio self * (cls_sup_loss + cls_ulb_loss_ratio self * cls_unsup_loss),
                  feat_dict = [''x_lb'' \<mapsto> feat o_lb, ''x_ulb_w'' \<mapsto> feat o_w,
                               ''x_ulb_s'' \<mapsto> feat o_s]\<rparr>,
                 process_log_dict self
                   [(''reg_loss'', reg_sup_loss + reg_ulb_loss_ratio self * reg_unsup_loss * ramp),
                    (''cls_loss'', cls_sup_loss + cls_ulb_loss_ratio self * cls_unsup_loss),
                    (''total_loss'', (reg_sup_loss + reg_ulb_loss_ratio self * reg_unsup_loss * ramp)
                        + cls_loss_ratio self * (cls_sup_loss + cls_ulb_loss_ratio self * cls_unsup_loss))])"
proof -
  let ?s = "s\<lparr>it := i\<rparr>"
  have lb': "rankup_net self (params ?s) (bn_flags ?s) x_lb (Some y_lb) = Inr o_lb"
    using lb by simp
  have w': "rankup_net self (params ?s) (map (\<lambda>_. False) (bn_flags ?s)) x_ulb_w None = Inr o_w"
    using w by simp
  have st': "rankup_net self (params ?s) (bn_flags ?s) x_ulb_s None = Inr o_s"
    using st by simp
  have rdaT': "use_rda self \<Longrightarrow>
               rda_hook self (rda ?s) (it ?s) idx (logits o_w) = (Inr pseudo, rda')
               \<and> reg_consistency_loss self (logits o_w) pseudo ''mse'' = Inr reg_unsup_loss"
    using rdaT by simp
  have rdaF': "\<not> use_rda self \<Longrightarrow> reg_unsup_loss = 0 \<and> rda' = rda ?s"
    using rdaF by simp
  have ramp': "unsup_warmup (it ?s) (reg_unsup_warm_up self) (num_train_iter self) = Inr ramp"
    using ramp by simp
  show ?thesis
    using RankUp_value [OF lb' w' pr st' sup rdaT' rdaF' mk pl csup cunsup ramp'] by simp
qed

theorem RankUp_total_loss_witness:
  "map_sum id (\<lambda>r. loss (fst r))
     (fst (RankUp_train_step (toy_rank_up\<lparr>use_rda := True\<rparr>) toy_batch [[1]] [0, 1, 2, 3]
        toy_batch toy_batch (toy_rank_state\<lparr>it := 200\<rparr>)))
   = Inr ((2 + 1 * 3 * (1 / 2)) + 1 * (5 + 1 * 0))"
proof -
  let ?self = "toy_rank_up\<lparr>use_rda := True\<rparr>"
  have ne: "toy_batch \<noteq> []" by (simp add: toy_batch_def)
  have lb: "rankup_net ?self (params toy_rank_state) (bn_flags toy_rank_state) toy_batch (Some [[1]])
            = Inr \<lparr>logits = toy_batch, feat = toy_batch, logits_arc = toy_batch, targets_arc = [[1]]\<rparr>"
    using toy_rank_net [OF ne, of True] by simp
  have w: "rankup_net ?self (params toy_rank_state) (map (\<lambda>_. False) (bn_flags toy_rank_state))
              toy_batch None
            = Inr \<lparr>logits = toy_batch, feat = toy_batch, logits_arc = toy_batch, targets_arc = []\<rparr>"
    using toy_rank_net [OF ne, of True] by simp
  have pr: "compute_prob ?self
              (logits_arc \<lparr>logits = toy_batch, feat = toy_batch, logits_arc = toy_batch, targets_arc = []\<rparr>)
            = Inr toy_batch"
    by (simp add: toy_rank_up_def)
  have st: "rankup_net ?self (params toy_rank_state) (bn_flags toy_rank_state) toy_batch None
            = Inr \<lparr>logits = toy_batch, feat = toy_batch, logits_arc = toy_batch, targets_arc = []\<rparr>"
    using toy_rank_net [OF ne, of True] by simp
  have sup: "reg_loss ?self
               (logits \<lparr>logits = toy_batch, feat = toy_batch, logits_arc = toy_batch,
                        targets_arc = [[1]]\<rparr>) [[1]] ''mean'' = Inr 2"
    by (simp add: toy_rank_up_def)
  have rdaT: "use_rda ?self \<Longrightarrow>
              rda_hook ?self (rda toy_rank_state) 200 [0, 1, 2, 3]
                (logits \<lparr>logits = toy_batch, feat = toy_batch, logits_arc = toy_batch,
                         targets_arc = []\<rparr>) = (Inr toy_batch, Suc 0)
              \<and> reg_consistency_loss ?self
                  (logits \<lparr>logits = toy_batch, feat = toy_batch, logits_arc = toy_batch,
                           targets_arc = []\<rparr>) toy_batch ''mse'' = Inr 3"
    by (simp add: toy_rank_up_def toy_rank_state_def)
  have rdaF: "\<not> use_rda ?self \<Longrightarrow> (3::real) = 0 \<and> Suc 0 = rda toy_rank_state"
    by simp
  have mk: "masking_hook ?self (p_cutoff ?self) toy_batch False = Inr [0, 0, 0, 0]"
    using toy_rank_mask by (simp add: toy_rank_up_def)
  have pl: "pseudo_labeling_hook ?self toy_batch (use_hard_label ?self) (T ?self) False
            = Inr toy_batch"
    by (simp add: toy_rank_up_def)
  have csup: "cls_loss ?self
                (logits_arc \<lparr>logits = toy_batch, feat = toy_batch, logits_arc = toy_batch,
                             targets_arc = [[1]]\<rparr>)
                (targets_arc \<lparr>logits = toy_batch, feat = toy_batch, logits_arc = toy_batch,
                              targets_arc = [[1]]\<rparr>) ''mean'' = Inr 5"
    by (simp add: toy_rank_up_def)
  have cunsup: "cls_consistency_loss ?self
                  (logits_arc \<lparr>logits = toy_batch, feat = toy_batch, logits_arc = toy_batch,
                               targets_arc = []\<rparr>) toy_batch ''ce'' [0, 0, 0, 0] = Inr 0"
    using toy_rank_masked_loss by (simp add: toy_rank_up_def)
  have ramp: "unsup_warmup 200 (reg_unsup_warm_up ?self) (num_train_iter ?self) = Inr (1 / 2)"
    by (simp add: toy_rank_up_def unsup_warmup_def np_clip_def)
  from RankUp_total_loss [OF lb w pr st sup rdaT rdaF mk pl csup cunsup ramp] show ?thesis
    by (simp add: toy_rank_up_def)
qed

subsection \<open>Masking\<close>

lemma masking_mask:
  "\<not> list_ex (\<lambda>row. row = []) probs \<Longrightarrow>
   masking cutoff probs False = Inr (map (\<lambda>row. if cutoff \<le> max_probs row then 1 else 0) probs)"
  by (simp add: masking_def)

lemma masking_all_one:
  assumes "\<not> list_ex (\<lambda>row. row = []) probs" and "\<forall>row\<in>set probs. 0 \<le> max_probs row"
  shows "masking 0 probs False = Inr (replicate (length probs) 1)"
proof -
  from assms(2) have "map (\<lambda>row. if 0 \<le> max_probs row then 1 else 0) probs = map (\<lambda>_. 1::real) probs"
    by (intro map_cong) auto
  with assms(1) show ?thesis by (simp add: masking_mask map_replicate_const)
qed

lemma masking_all_zero:
  assumes "\<not> list_ex (\<lambda>row. row = []) probs" and "\<forall>row\<in>set probs. max_probs row < 1"
  shows "masking 1 probs False = Inr (replicate (length probs) 0)"
proof -
  from assms(2) have "map (\<lambda>row. if 1 \<le> max_probs row then 1 else 0) probs = map (\<lambda>_. 0::real) probs"
    by (intro map_cong) auto
  with assms(1) show ?thesis by (simp add: masking_mask map_replicate_const)
qed

lemma sum_list_zero_mask: "sum_list (map2 (\<lambda>l m. l * m) xs (replicate n (0::real))) = 0"
proof (induction xs arbitrary: n)
  case Nil
  then show ?case by simp
next
  case (Cons x xs)
  then show ?case by (cases n) simp_all
qed

lemma masked_loss_zero:
  assumes "length lgs = n" and "length targets = n" and "0 < n"
  shows "masked_consistency_loss per_sample lgs targets (replicate n 0) = Inr 0"
  using assms by (auto simp: masked_consistency_loss_def sum_list_zero_mask)

text \<open>
  C8. On a batch of probability rows (every sample has a class, every confidence lies
  in \<open>[0, 1]\<close>) the masking hook returns the mask that is 1 exactly where the confidence
  is at least the cutoff and 0 elsewhere. With cutoff 0 every entry is 1. With cutoff 1,
  when no confidence is 1, every entry is 0; the masked consistency loss of a non-empty
  batch is then 0 whatever the predictions and the per-sample losses are, and a
  \<^verbatim>\<open>RankUp.train_step\<close> that masks with this hook and this loss at \<open>p_cutoff = 1\<close> returns
  \<open>total_cls_loss = cls_sup_loss\<close>.
\<close>

theorem masking_cutoff_extremes:
  fixes self :: "('x, real list list, real list, 'r, 'z) rank_up_scheme"
  assumes rows: "\<not> list_ex (\<lambda>row. row = []) probs"
    and range: "\<forall>row\<in>set probs. 0 \<le> max_probs row \<and> max_probs row \<le> 1 \<and> max_probs row \<noteq> 1"
    and batch: "probs \<noteq> []"
    and hook: "masking_hook self = masking"
    and crit: "cls_consistency_loss self = (\<lambda>lg y name m. masked_consistency_loss per_sample lg y m)"
    and cutoff: "p_cutoff self = 1"
    and lb: "rankup_net self (params s) (bn_flags s) x_lb (Some y_lb) = Inr o_lb"
    and w: "rankup_net self (params s) (map (\<lambda>_. False) (bn_flags s)) x_ulb_w None = Inr o_w"
    and pr: "compute_prob self (logits_arc o_w) = Inr probs"
    and st: "rankup_net self (params s) (bn_flags s) x_ulb_s None = Inr o_s"
    and sup: "reg_loss self (logits o_lb) y_lb ''mean'' = Inr reg_sup_loss"
    and rdaT: "use_rda self \<Longrightarrow>
               rda_hook self (rda s) (it s) idx (logits o_w) = (Inr pseudo, rda')
               \<and> reg_consistency_loss self (logits o_w) pseudo ''mse'' = Inr reg_unsup_loss"
    and rdaF: "\<not> use_rda self \<Longrightarrow> reg_unsup_loss = 0 \<and> rda' = rda s"
    and pl: "pseudo_labeling_hook self probs (use_hard_label self) (T self) False = Inr pseudo_arc"
    and csup: "cls_loss self (logits_arc o_lb) (targets_arc o_lb) ''mean'' = Inr cls_sup_loss"
    and ramp: "unsup_warmup (it s) (reg_unsup_warm_up self) (num_train_iter self) = Inr ramp"
    and len_s: "length (logits_arc o_s) = length probs"
    and len_pl: "length pseudo_arc = length probs"
  shows "masking c probs False = Inr (map (\<lambda>row. if c \<le> max_probs row then 1 else 0) probs)
       \<and> masking 0 probs False = Inr (replicate (length probs) 1)
       \<and> masking 1 probs False = Inr (replicate (length probs) 0)
       \<and> masked_consistency_loss per_sample (logits_arc o_s) pseudo_arc
            (replicate (length probs) 0) = Inr 0
       \<and> fst (RankUp_train_step self x_lb y_lb idx x_ulb_w x_ulb_s s) =
           Inr (\<lparr>loss = reg_sup_loss + reg_ulb_loss_ratio self * reg_unsup_loss * ramp
                        + cls_loss_ratio self * cls_sup_loss,
                  feat_dict = [''x_lb'' \<mapsto> feat o_lb, ''x_ulb_w'' \<mapsto> feat o_w,
                               ''x_ulb_s'' \<mapsto> feat o_s]\<rparr>,
                 process_log_dict self
                   [(''reg_loss'', reg_sup_loss + reg_ulb_loss_ratio self * reg_unsup_loss * ramp),
                    (''cls_loss'', cls_sup_loss),
                    (''total_loss'', reg_sup_loss + reg_ulb_loss_ratio self * reg_unsup_loss * ramp
                        + cls_loss_ratio self * cls_sup_loss)])"
proof -
  have m: "masking c probs False = Inr (map (\<lambda>row. if c \<le> max_probs row then 1 else 0) probs)"
    using rows by (rule masking_mask)
  from range have "\<forall>row\<in>set probs. 0 \<le> max_probs row" by simp
  with rows have m0: "masking 0 probs False = Inr (replicate (length probs) 1)"
    by (rule masking_all_one)
  from range have "\<forall>row\<in>set probs. max_probs row < 1" by fastforce
  with rows have m1: "masking 1 probs False = Inr (replicate (length probs) 0)"
    by (rule masking_all_zero)
  from batch have "0 < length probs" by simp
  with len_s len_pl
  have z: "masked_consistency_loss per_sample (logits_arc o_s) pseudo_arc
             (replicate (length probs) 0) = Inr 0"
    by (rule masked_loss_zero)
  have mk: "masking_hook self (p_cutoff self) probs False = Inr (replicate (length probs) 0)"
    by (simp add: hook cutoff m1)
  have cunsup: "cls_consistency_loss self (logits_arc o_s) pseudo_arc ''ce''
                  (replicate (length probs) 0) = Inr 0"
    by (simp add: crit z)
  have "fst (RankUp_train_step self x_lb y_lb idx x_ulb_w x_ulb_s s) =
           Inr (\<lparr>loss = reg_sup_loss + reg_ulb_loss_ratio self * reg_unsup_loss * ramp
                        + cls_loss_ratio self * cls_sup_loss,
                  feat_dict = [''x_lb'' \<mapsto> feat o_lb, ''x_ulb_w'' \<mapsto> feat o_w,
                               ''x_ulb_s'' \<mapsto> feat o_s]\<rparr>,
                 process_log_dict self
                   [(''reg_loss'', reg_sup_loss + reg_ulb_loss_ratio self * reg_unsup_loss * ramp),
                    (''cls_loss'', cls_sup_loss),
                    (''total_loss'', reg_sup_loss + reg_ulb_loss_ratio self * reg_unsup_loss * ramp
                        + cls_loss_ratio self * cls_sup_loss)])"
    using RankUp_value [OF lb w pr st sup rdaT rdaF mk pl csup cunsup ramp] by simp
  with m m0 m1 z show ?thesis by blast
qed

theorem masking_cutoff_extremes_witness:
  "masking 0 toy_batch False = Inr [1, 1, 1, 1]
   \<and> masking 1 toy_batch False = Inr [0, 0, 0, 0]
   \<and> masking (1 / 2) toy_batch False = Inr [1, 1, 1, 1]
   \<and> masking (7 / 10) toy_batch False = Inr [1, 0, 0, 1]
   \<and> map_sum id (\<lambda>r. loss (fst r))
       (fst (RankUp_train_step toy_rank_up toy_batch [[1]] [0, 1, 2, 3] toy_batch toy_batch
          toy_rank_state)) = Inr (2 + 1 * 0 * (1 / 2) + 1 * 5)"
proof -
  have ne: "toy_batch \<noteq> []" by (simp add: toy_batch_def)
  have rows: "\<not> list_ex (\<lambda>row. row = []) toy_batch" by (simp add: toy_batch_def)
  have range: "\<forall>row\<in>set toy_batch. 0 \<le> max_probs row \<and> max_probs row \<le> 1 \<and> max_probs row \<noteq> 1"
    by (simp add: toy_batch_def max_probs_def)
  have hook: "masking_hook toy_rank_up = masking" by (simp add: toy_rank_up_def)
  have crit: "cls_consistency_loss toy_rank_up
                = (\<lambda>lg y name m. masked_consistency_loss (\<lambda>l t. 7) lg y m)"
    by (simp add: toy_rank_up_def)
  have cutoff: "p_cutoff toy_rank_up = 1" by (simp add: toy_rank_up_def)
  have lb: "rankup_net toy_rank_up (params toy_rank_state) (bn_flags toy_rank_state) toy_batch
              (Some [[1]])
            = Inr \<lparr>logits = toy_batch, feat = toy_batch, logits_arc = toy_batch, targets_arc = [[1]]\<rparr>"
    using toy_rank_net [OF ne, of False] by (simp add: toy_rank_up_def)
  have w: "rankup_net toy_rank_up (params toy_rank_state) (map (\<lambda>_. False) (bn_flags toy_rank_state))
              toy_batch None
            = Inr \<lparr>logits = toy_batch, feat = toy_batch, logits_arc = toy_batch, targets_arc = []\<rparr>"
    using toy_rank_net [OF ne, of False] by (simp add: toy_rank_up_def)
  have pr: "compute_prob toy_rank_up
              (logits_arc \<lparr>logits = toy_batch, feat = toy_batch, logits_arc = toy_batch, targets_arc = []\<rparr>)
            = Inr toy_batch"
    by (simp add: toy_rank_up_def)
  have st: "rankup_net toy_rank_up (params toy_rank_state) (bn_flags toy_rank_state) toy_batch None
            = Inr \<lparr>logits = toy_batch, feat = toy_batch, logits_arc = toy_batch, targets_arc = []\<rparr>"
    using toy_rank_net [OF ne, of False] by (simp add: toy_rank_up_def)
  have sup: "reg_loss toy_rank_up
               (logits \<lparr>logits = toy_batch, feat = toy_batch, logits_arc = toy_batch,
                        targets_arc = [[1]]\<rparr>) [[1]] ''mean'' = Inr 2"
    by (simp add: toy_rank_up_def)
  have rdaT: "use_rda toy_rank_up \<Longrightarrow>
              rda_hook toy_rank_up (rda toy_rank_state) (it toy_rank_state) [0, 1, 2, 3]
                (logits \<lparr>logits = toy_batch, feat = toy_batch, logits_arc = toy_batch,
                         targets_arc = []\<rparr>) = (Inr toy_batch, rda toy_rank_state)
              \<and> reg_consistency_loss toy_rank_up
                  (logits \<lparr>logits = toy_batch, feat = toy_batch, logits_arc = toy_batch,
                           targets_arc = []\<rparr>) toy_batch ''mse'' = Inr 0"
    by (simp add: toy_rank_up_def)
  have rdaF: "\<not> use_rda toy_rank_up \<Longrightarrow> (0::real) = 0 \<and> rda toy_rank_state = rda toy_rank_state"
    by simp
  have pl: "pseudo_labeling_hook toy_rank_up toy_batch (use_hard_label toy_rank_up) (T toy_rank_up)
              False = Inr toy_batch"
    by (simp add: toy_rank_up_def)
  have csup: "cls_loss toy_rank_up
                (logits_arc \<lparr>logits = toy_batch, feat = toy_batch, logits_arc = toy_batch,
                             targets_arc = [[1]]\<rparr>)
                (targets_arc \<lparr>logits = toy_batch, feat = toy_batch, logits_arc = toy_batch,
                              targets_arc = [[1]]\<rparr>) ''mean'' = Inr 5"
    by (simp add: toy_rank_up_def)
  have ramp: "unsup_warmup (it toy_rank_state) (reg_unsup_warm_up toy_rank_up)
                (num_train_iter toy_rank_up) = Inr (1 / 2)"
    by (simp add: toy_rank_up_def toy_rank_state_def unsup_warmup_def np_clip_def)
  have len_s: "length (logits_arc \<lparr>logits = toy_batch, feat = toy_batch, logits_arc = toy_batch,
                                   targets_arc = []\<rparr>) = length toy_batch"
    by simp
  have len_pl: "length toy_batch = length toy_batch" by simp
  note inst = masking_cutoff_extremes [OF rows range ne hook crit cutoff lb w pr st sup rdaT rdaF
      pl csup ramp len_s len_pl]
  from inst [of "1 / 2"] inst [of "7 / 10"] show ?thesis
    by (simp add: toy_rank_up_def toy_batch_def max_probs_def)
qed

end
